theory Spec2Isabelle
  imports Complex_Main
begin

section \<open>Data model of the driving-event processor\<close>

text \<open>
  The development embeds the class \<open>DataProcessor\<close> of \<^verbatim>\<open>data-processor.js\<close>
  (the field-tested variant, v2.2), the helper \<open>Utils\<close> it calls, and the event
  detector and severity function of the calibrated variant (v2.1), whose names carry the
  suffix \<open>_v21\<close> where they clash.

  Conventions of the embedding:
  \<^item> a JavaScript number is a \<open>real\<close>, and the arithmetic of the program is exact
    arithmetic on reals, with two exceptions, written out where the behaviour of the
    program depends on them: the quotient of \<open>calculateSeverity\<close>, whose divisor can be
    \<open>0\<close>, is a \<open>quotient\<close> that can be infinite or NaN; and the sums and the division
    of \<open>calculateAccelerationBaseline\<close> are rounded to the nearest double (\<open>fl\<close>),
    because the program later subtracts that mean from the readings it was computed
    from. Elsewhere rounding is not modelled, nor are numbers beyond the largest finite
    double; a zero is the positive zero. A number of a sample is the value of the
    double: the literal \<open>0.11\<close> of a program is \<open>7926335344172073 / 2 ^ 56\<close> here;
  \<^item> an optional numeric field (\<open>lat\<close>, \<open>lon\<close>, \<open>velocidad\<close>, \<open>x\<close>, \<open>y\<close>, \<open>z\<close>)
    is a \<open>real option\<close>, \<open>None\<close> standing for \<open>undefined\<close>; the fields of a sample
    that the processor never reads (\<open>grupo\<close>, \<open>session_time\<close>, \<open>type\<close>, \<open>accuracy\<close>,
    \<open>heading\<close>) are left out;
  \<^item> the clock \<open>Date.now()\<close> is an argument \<open>now\<close> (milliseconds) of every function
    that reads it, the same value for all reads during one call of \<open>processDataPoint\<close>;
  \<^item> mutation of \<open>this\<close> is explicit state passing over the record \<open>processor\<close>;
  \<^item> logging and the listener callbacks of \<open>emitEvent\<close> do not touch the processor and
    are left out.
\<close>

datatype severity = Low | Moderate | High | Extreme

datatype event_type = Harsh_acceleration | Harsh_braking | Aggressive_turn | Speeding

datatype detection_method = GPS_Accel | Accel_Only

datatype direction = Right_turn | Left_turn

text \<open>
  A required field as \<open>validateDataStructure\<close> sees it: not a property of the object,
  a property whose value is not a string, or a string. The string of \<open>timestamp\<close> is
  represented by the instant \<open>new Date\<close> parses it to (the caller writes it with
  \<open>toISOString\<close>), in milliseconds.
\<close>

datatype 'a js_field = Missing | Not_string | String_val 'a

record raw_data =
  timestamp :: "int js_field"
  participante :: "string js_field"
  lat :: "real option"
  lon :: "real option"
  velocidad :: "real option"
  data_x :: "real option"
  data_y :: "real option"
  data_z :: "real option"

text \<open>The argument of \<open>processDataPoint\<close>: an object, or anything else (null, a primitive).\<close>

datatype js_arg = Non_object | Object raw_data

record vec =
  vec_x :: real
  vec_y :: real
  vec_z :: real

record accel_sample =
  acc_x :: real
  acc_y :: real
  acc_z :: real
  acc_magnitude :: real
  acc_timestamp :: int

record baseline =
  base_x :: real
  base_y :: real
  base_z :: real
  base_magnitude :: real

record motion_sample =
  moving :: bool
  variation :: real
  motion_timestamp :: int

record gps_point =
  gps_lat :: real
  gps_lon :: real
  gps_timestamp :: int

record enriched = raw_data +
  acceleration_magnitude :: "real option"
  filtered_acceleration :: "vec option"
  estimated_speed :: "real option"
  longitudinal_acceleration :: "real option"
  vehicle_moving :: bool
  movement_confidence :: nat
  gps_available :: bool
  detection_method :: detection_method

record driving_event =
  ev_type :: event_type
  ev_severity :: severity
  ev_value :: real
  ev_direction :: "direction option"
  ev_speed :: "real option"
  ev_limit :: "real option"
  ev_method :: "detection_method option"
  ev_timestamp :: "int js_field"
  ev_location :: "real option \<times> real option"
  ev_confidence :: nat

record thresholds =
  harsh_acceleration :: real
  harsh_braking :: real
  aggressive_turn :: real
  speeding :: real
  minimum_speed :: real
  motion_threshold :: real
  sustained_motion :: real
  acceleration_noise :: real
  gps_noise :: real
  stability_time :: int

record speed_limits =
  urban :: real
  highway :: real
  residential :: real
  school :: real
  default_limit :: real

record processor =
  thresholds :: thresholds
  eventCounters :: "event_type \<Rightarrow> nat"
  dataBuffer :: "enriched list"
  bufferSize :: nat
  accelerationHistory :: "accel_sample list"
  motionHistory :: "motion_sample list"
  baselineAcceleration :: "baseline option"
  lastEventTime :: "event_type \<Rightarrow> int option"
  isVehicleMoving :: bool
  movementConfidence :: nat
  gpsAvailable :: bool
  lastRecordTime :: int
  recordInterval :: int
  speedLimits :: speed_limits
  currentSpeedLimit :: real
  lastGPSPoint :: "gps_point option"
  wasMoving :: "bool option"

record processing_result =
  processed :: enriched
  events :: "driving_event list"
  counters :: "event_type \<Rightarrow> nat"

section \<open>JavaScript idioms\<close>

text \<open>Truthiness of an optional number: \<open>undefined\<close> and \<open>0\<close> are falsy.\<close>

definition truthy :: "real option \<Rightarrow> bool" where
  "truthy v = (case v of None \<Rightarrow> False | Some r \<Rightarrow> r \<noteq> 0)"

text \<open>\<open>v || 0\<close> on an optional number.\<close>

definition or_zero :: "real option \<Rightarrow> real" where
  "or_zero v = (case v of None \<Rightarrow> 0 | Some r \<Rightarrow> r)"

text \<open>\<open>v || null\<close> on an optional number: a zero becomes \<open>null\<close>.\<close>

definition or_null :: "real option \<Rightarrow> real option" where
  "or_null v = (if truthy v then v else None)"

text \<open>\<open>xs.slice(-n)\<close>: the last \<open>n\<close> elements, all of them when there are fewer.\<close>

definition slice_last :: "nat \<Rightarrow> 'a list \<Rightarrow> 'a list" where
  "slice_last n xs = drop (length xs - n) xs"

text \<open>\<open>xs.push(v); if (xs.length > n) xs.shift()\<close>.\<close>

definition push_bounded :: "nat \<Rightarrow> 'a \<Rightarrow> 'a list \<Rightarrow> 'a list" where
  "push_bounded n v xs = (let ys = xs @ [v] in if length ys > n then tl ys else ys)"

subsection \<open>Division and rounding of doubles\<close>

text \<open>
  The result of a division whose divisor can be zero: \<open>a / 0\<close> is \<open>Infinity\<close> for
  positive \<open>a\<close>, \<open>-Infinity\<close> for negative \<open>a\<close> and \<open>NaN\<close> for \<open>0 / 0\<close>. The
  comparison \<open>q >= c\<close> with a finite \<open>c\<close> holds for \<open>Infinity\<close> and fails for
  \<open>-Infinity\<close> and for \<open>NaN\<close>.
\<close>

datatype quotient = Finite real | Pos_infinity | Neg_infinity | Not_a_number

definition js_divide :: "real \<Rightarrow> real \<Rightarrow> quotient" where
  "js_divide a b =
     (if b \<noteq> 0 then Finite (a / b)
      else if a > 0 then Pos_infinity
      else if a < 0 then Neg_infinity
      else Not_a_number)"

definition at_least :: "quotient \<Rightarrow> real \<Rightarrow> bool" where
  "at_least q c =
     (case q of
        Finite r \<Rightarrow> r \<ge> c
      | Pos_infinity \<Rightarrow> True
      | Neg_infinity \<Rightarrow> False
      | Not_a_number \<Rightarrow> False)"

text \<open>
  Rounding of a real to the nearest integer, a tie going to the even neighbour, and
  rounding of a real to the nearest double \<open>fl\<close>: the significand has 53 bits, so a
  number \<open>x\<close> with \<open>2 ^ e \<le> |x| < 2 ^ (e + 1)\<close> is rounded to a multiple of
  \<open>2 ^ (e - 52)\<close>; below \<open>2 ^ (- 1022)\<close> the doubles are the multiples of
  \<open>2 ^ (- 1074)\<close>. A result of magnitude \<open>2 ^ 1024\<close> or more, which the program turns
  into an infinity, is outside the model.
\<close>

definition round_even :: "real \<Rightarrow> int" where
  "round_even r =
     (let n = \<lfloor>r\<rfloor>; f = r - of_int n
      in if f < 1 / 2 then n
         else if 1 / 2 < f then n + 1
         else if even n then n else n + 1)"

definition fl :: "real \<Rightarrow> real" where
  "fl x =
     (if x = 0 then 0
      else
        let e = max \<lfloor>log 2 \<bar>x\<bar>\<rfloor> (- 1022) - 52;
            u = 2 powr of_int e
        in of_int (round_even (x / u)) * u)"

section \<open>Utils\<close>

definition validateDataStructure :: "js_arg \<Rightarrow> bool" where
  "validateDataStructure d =
     (case d of
        Non_object \<Rightarrow> False
      | Object r \<Rightarrow>
          (if timestamp r = Missing then False
           else if participante r = Missing then False
           else if (case timestamp r of String_val _ \<Rightarrow> False | _ \<Rightarrow> True) then False
           else if (case participante r of String_val _ \<Rightarrow> False | _ \<Rightarrow> True) then False
           else True))"

text \<open>\<open>Math.atan2\<close> on the arguments the haversine formula gives it.\<close>

definition atan2 :: "real \<Rightarrow> real \<Rightarrow> real" where
  "atan2 b a =
     (if a > 0 then arctan (b / a)
      else if a < 0 then (if b \<ge> 0 then arctan (b / a) + pi else arctan (b / a) - pi)
      else if b > 0 then pi / 2
      else if b < 0 then - pi / 2
      else 0)"

definition calculateDistance :: "real \<Rightarrow> real \<Rightarrow> real \<Rightarrow> real \<Rightarrow> real" where
  "calculateDistance lat1 lon1 lat2 lon2 =
     (let R = 6371000;
          phi1 = lat1 * pi / 180;
          phi2 = lat2 * pi / 180;
          dphi = (lat2 - lat1) * pi / 180;
          dlambda = (lon2 - lon1) * pi / 180;
          a = sin (dphi / 2) * sin (dphi / 2)
              + cos phi1 * cos phi2 * sin (dlambda / 2) * sin (dlambda / 2);
          c = 2 * atan2 (sqrt a) (sqrt (1 - a))
      in R * c)"

section \<open>Severity\<close>

text \<open>
  \<open>calculateSeverity\<close> of \<^verbatim>\<open>data-processor.js\<close> (v2.2). The threshold comes from
  \<open>setThresholds\<close>, which accepts any number, so the divisor can be \<open>0\<close>.
\<close>

definition calculateSeverity :: "real \<Rightarrow> real \<Rightarrow> severity" where
  "calculateSeverity val threshold =
     (let ratio = js_divide val threshold
      in if at_least ratio 2.0 then Extreme
         else if at_least ratio 1.5 then High
         else if at_least ratio 1.2 then Moderate
         else Low)"

text \<open>\<open>calculateSeverity\<close> of the calibrated variant (v2.1).\<close>

definition calculateSeverity_v21 :: "real \<Rightarrow> real \<Rightarrow> severity" where
  "calculateSeverity_v21 val threshold =
     (let ratio = js_divide val threshold
      in if at_least ratio 2.5 then Extreme
         else if at_least ratio 2.0 then High
         else if at_least ratio 1.5 then Moderate
         else Low)"

text \<open>\<open>calculateSpeedingSeverity\<close>, the same in both variants.\<close>

definition calculateSpeedingSeverity :: "real \<Rightarrow> severity" where
  "calculateSpeedingSeverity excess =
     (if excess \<ge> 40 then Extreme
      else if excess \<ge> 30 then High
      else if excess \<ge> 20 then Moderate
      else Low)"

section \<open>The field-tested processor (v2.2)\<close>

subsection \<open>Construction, reset, configuration\<close>

text \<open>
  The constructor. \<open>lastGPSPoint\<close> and \<open>wasMoving\<close> are not assigned by it and so are
  \<open>undefined\<close>; \<open>movementStartTime\<close> is never read and \<open>eventListeners\<close> holds the
  callbacks, both left out.
\<close>

definition DataProcessor_new :: processor where
  "DataProcessor_new =
     \<lparr> thresholds =
         \<lparr> harsh_acceleration = 2.0, harsh_braking = 2.0, aggressive_turn = 3.0,
           speeding = 25, minimum_speed = 3, motion_threshold = 1.5, sustained_motion = 5,
           acceleration_noise = 0.5, gps_noise = 1.0, stability_time = 2000 \<rparr>,
       eventCounters = (\<lambda>_. 0),
       dataBuffer = [],
       bufferSize = 8,
       accelerationHistory = [],
       motionHistory = [],
       baselineAcceleration = None,
       lastEventTime = (\<lambda>_. None),
       isVehicleMoving = False,
       movementConfidence = 0,
       gpsAvailable = False,
       lastRecordTime = 0,
       recordInterval = 1500,
       speedLimits =
         \<lparr> urban = 60, highway = 110, residential = 40, school = 20, default_limit = 60 \<rparr>,
       currentSpeedLimit = 60,
       lastGPSPoint = None,
       wasMoving = None \<rparr>"

definition resetCounters :: "processor \<Rightarrow> processor" where
  "resetCounters s =
     s\<lparr> eventCounters := (\<lambda>_. 0),
        dataBuffer := [],
        accelerationHistory := [],
        motionHistory := [],
        baselineAcceleration := None,
        lastGPSPoint := None,
        lastEventTime := (\<lambda>_. None),
        isVehicleMoving := False,
        movementConfidence := 0 \<rparr>"

definition getCurrentCounters :: "processor \<Rightarrow> event_type \<Rightarrow> nat" where
  "getCurrentCounters s = eventCounters s"

text \<open>
  \<open>setThresholds\<close> spreads the given object over the current thresholds; the object is
  modelled by the update it performs on the threshold record.
\<close>

definition setThresholds :: "(thresholds \<Rightarrow> thresholds) \<Rightarrow> processor \<Rightarrow> processor" where
  "setThresholds newThresholds s = s\<lparr> thresholds := newThresholds (thresholds s) \<rparr>"

subsection \<open>Movement detection\<close>

definition hasGPSMovement :: "int \<Rightarrow> raw_data \<Rightarrow> processor \<Rightarrow> bool \<times> processor" where
  "hasGPSMovement now d s =
     (case (lat d, lon d) of
        (Some la, Some lo) \<Rightarrow>
          if la = 0 \<or> lo = 0 then (False, s)
          else
            (case lastGPSPoint s of
               None \<Rightarrow>
                 (False,
                  s\<lparr> lastGPSPoint :=
                       Some \<lparr> gps_lat = la, gps_lon = lo, gps_timestamp = now \<rparr> \<rparr>)
             | Some p \<Rightarrow>
                 let distance = calculateDistance (gps_lat p) (gps_lon p) la lo;
                     timeDiff = real_of_int (now - gps_timestamp p) / 1000;
                     calculatedSpeed = (if timeDiff > 0 then (distance / timeDiff) * 3.6 else 0)
                 in (calculatedSpeed > gps_noise (thresholds s),
                     s\<lparr> lastGPSPoint :=
                          Some \<lparr> gps_lat = la, gps_lon = lo, gps_timestamp = now \<rparr> \<rparr>))
      | _ \<Rightarrow> (False, s))"

text \<open>
  \<open>calculateAccelerationBaseline\<close>: each \<open>sum + a.x\<close> of the \<open>reduce\<close> and the final
  division by \<open>recent.length\<close> give a double, the rounded value of the exact result.
\<close>

definition calculateAccelerationBaseline :: "processor \<Rightarrow> baseline option" where
  "calculateAccelerationBaseline s =
     (if length (accelerationHistory s) < 5 then None
      else
        let recent = slice_last 5 (accelerationHistory s)
        in Some
             \<lparr> base_x =
                 fl (foldl (\<lambda>sum a. fl (sum + acc_x a)) 0 recent / real (length recent)),
               base_y =
                 fl (foldl (\<lambda>sum a. fl (sum + acc_y a)) 0 recent / real (length recent)),
               base_z =
                 fl (foldl (\<lambda>sum a. fl (sum + acc_z a)) 0 recent / real (length recent)),
               base_magnitude =
                 fl (foldl (\<lambda>sum a. fl (sum + acc_magnitude a)) 0 recent
                     / real (length recent)) \<rparr>)"

definition calculateAccelerationVariation :: "processor \<Rightarrow> accel_sample \<Rightarrow> real" where
  "calculateAccelerationVariation s current =
     (case baselineAcceleration s of
        None \<Rightarrow> 0
      | Some b \<Rightarrow>
          let deltaX = \<bar>acc_x current - base_x b\<bar>;
              deltaY = \<bar>acc_y current - base_y b\<bar>;
              deltaZ = \<bar>acc_z current - base_z b\<bar>
          in sqrt (deltaX ^ 2 + deltaY ^ 2 + deltaZ ^ 2))"

definition detectMotionFromAccelerometer ::
    "int \<Rightarrow> raw_data \<Rightarrow> processor \<Rightarrow> bool \<times> processor" where
  "detectMotionFromAccelerometer now d s =
     (case (data_x d, data_y d, data_z d) of
        (Some dx, Some dy, Some dz) \<Rightarrow>
          if dx = 0 \<or> dy = 0 \<or> dz = 0 then (False, s)
          else
            let currentAccel =
                  \<lparr> acc_x = dx, acc_y = dy, acc_z = dz,
                    acc_magnitude = sqrt (dx ^ 2 + dy ^ 2 + dz ^ 2),
                    acc_timestamp = now \<rparr>;
                s1 = s\<lparr> accelerationHistory :=
                          push_bounded 10 currentAccel (accelerationHistory s) \<rparr>;
                s2 = (if baselineAcceleration s1 = None \<and> length (accelerationHistory s1) \<ge> 5
                      then s1\<lparr> baselineAcceleration := calculateAccelerationBaseline s1 \<rparr>
                      else s1)
            in if baselineAcceleration s2 = None then (False, s2)
               else
                 let variation = calculateAccelerationVariation s2 currentAccel;
                     isMoving = (variation > motion_threshold (thresholds s2))
                 in (isMoving,
                     s2\<lparr> motionHistory :=
                          push_bounded 20
                            \<lparr> moving = isMoving, variation = variation,
                              motion_timestamp = now \<rparr>
                            (motionHistory s2) \<rparr>)
      | _ \<Rightarrow> (False, s))"

definition hasSustainedMotion :: "processor \<Rightarrow> bool" where
  "hasSustainedMotion s =
     (if length (motionHistory s) < 5 then False
      else
        let recent = slice_last 5 (motionHistory s);
            movingCount = length (filter moving recent)
        in movingCount \<ge> 3)"

text \<open>
  \<open>updateHybridMovementDetection\<close> in two parts: the evidence is gathered, then combined
  (the part of the source from the comment \<open>Combinar evidencias\<close> on).
\<close>

definition combine_evidence :: "bool \<Rightarrow> bool \<Rightarrow> bool \<Rightarrow> processor \<Rightarrow> processor" where
  "combine_evidence speedCriteria gpsMotion accelMotion s =
     (let confidence =
            (if gpsAvailable s
             then (if speedCriteria then 40 else 0) + (if gpsMotion then 30 else 0)
                  + (if accelMotion then 30 else 0)
             else (if accelMotion then 70 else 0)
                  + (if hasSustainedMotion s then 30 else 0));
          s3 = s\<lparr> movementConfidence := min confidence 100 \<rparr>;
          threshold = (if gpsAvailable s3 then 50 else 40);
          s4 = s3\<lparr> isVehicleMoving := (movementConfidence s3 > threshold) \<rparr>
      in if Some (isVehicleMoving s4) \<noteq> wasMoving s4
         then s4\<lparr> wasMoving := Some (isVehicleMoving s4) \<rparr>
         else s4)"

definition updateHybridMovementDetection :: "int \<Rightarrow> raw_data \<Rightarrow> processor \<Rightarrow> processor" where
  "updateHybridMovementDetection now rawData s =
     (let hasGPS = (truthy (lat rawData) \<and> truthy (lon rawData));
          s0 = s\<lparr> gpsAvailable := hasGPS \<rparr>;
          (speedCriteria, gpsMotion, s1) =
            (if hasGPS
             then let speed = or_zero (velocidad rawData);
                      (g, s') = hasGPSMovement now rawData s0
                  in (speed > minimum_speed (thresholds s0), g, s')
             else (False, False, s0));
          (accelMotion, s2) = detectMotionFromAccelerometer now rawData s1
      in combine_evidence speedCriteria gpsMotion accelMotion s2)"

subsection \<open>Enrichment\<close>

text \<open>
  \<open>calculateFilteredAcceleration\<close> is only called when \<open>x\<close>, \<open>y\<close> and \<open>z\<close> are
  defined; it takes the three numbers.
\<close>

definition calculateFilteredAcceleration :: "processor \<Rightarrow> real \<Rightarrow> real \<Rightarrow> real \<Rightarrow> vec" where
  "calculateFilteredAcceleration s dx dy dz =
     (case baselineAcceleration s of
        None \<Rightarrow> \<lparr> vec_x = dx, vec_y = dy, vec_z = dz \<rparr>
      | Some b \<Rightarrow>
          \<lparr> vec_x = dx - base_x b, vec_y = dy - base_y b, vec_z = dz - base_z b \<rparr>)"

definition estimateSpeedFromAccelerometer :: "processor \<Rightarrow> real" where
  "estimateSpeedFromAccelerometer s =
     (if length (accelerationHistory s) < 3 then 0
      else
        let recent = slice_last 3 (accelerationHistory s);
            avgVariation =
              foldl (\<lambda>sum a. sum + calculateAccelerationVariation s a) 0 recent
              / real (length recent)
        in if avgVariation > 4.0 then 60
           else if avgVariation > 2.0 then 35
           else if avgVariation > 1.0 then 15
           else 5)"

text \<open>
  The timestamps of a validated sample and of every buffered sample are strings; the
  last case is for fields that are not, which \<open>processDataPoint\<close> never passes on.
\<close>

definition calculateLongitudinalAcceleration :: "processor \<Rightarrow> enriched \<Rightarrow> real" where
  "calculateLongitudinalAcceleration s d =
     (if length (dataBuffer s) = 0 then 0
      else
        let lastPoint = last (dataBuffer s)
        in case (timestamp d, timestamp lastPoint) of
             (String_val t, String_val t0) \<Rightarrow>
               let timeDelta = real_of_int (t - t0) / 1000
               in if timeDelta \<le> 0 then 0
                  else
                    (case (velocidad d, velocidad lastPoint) of
                       (Some v, Some v0) \<Rightarrow> (v - v0) / timeDelta / 3.6
                     | _ \<Rightarrow>
                         (case (estimated_speed d, estimated_speed lastPoint) of
                            (Some e, Some e0) \<Rightarrow> (e - e0) / timeDelta / 3.6
                          | _ \<Rightarrow> 0))
           | _ \<Rightarrow> 0)"

definition enrichDataFieldTested :: "raw_data \<Rightarrow> processor \<Rightarrow> enriched" where
  "enrichDataFieldTested rawData s =
     (let e0 = \<lparr> timestamp = timestamp rawData, participante = participante rawData,
                 lat = lat rawData, lon = lon rawData, velocidad = velocidad rawData,
                 data_x = data_x rawData, data_y = data_y rawData, data_z = data_z rawData,
                 acceleration_magnitude = None, filtered_acceleration = None,
                 estimated_speed = None, longitudinal_acceleration = None,
                 vehicle_moving = False, movement_confidence = 0,
                 gps_available = False, detection_method = Accel_Only \<rparr>;
          e1 = (case (data_x rawData, data_y rawData, data_z rawData) of
                  (Some dx, Some dy, Some dz) \<Rightarrow>
                    e0\<lparr> acceleration_magnitude := Some (sqrt (dx ^ 2 + dy ^ 2 + dz ^ 2)),
                        filtered_acceleration :=
                          Some (calculateFilteredAcceleration s dx dy dz) \<rparr>
                | _ \<Rightarrow> e0);
          e2 = (if \<not> truthy (velocidad rawData) \<and> isVehicleMoving s
                then e1\<lparr> estimated_speed := Some (estimateSpeedFromAccelerometer s) \<rparr>
                else e1);
          e3 = (if length (dataBuffer s) > 0
                then e2\<lparr> longitudinal_acceleration :=
                          Some (calculateLongitudinalAcceleration s e2) \<rparr>
                else e2)
      in e3\<lparr> vehicle_moving := isVehicleMoving s,
             movement_confidence := movementConfidence s,
             gps_available := gpsAvailable s,
             detection_method := (if gpsAvailable s then GPS_Accel else Accel_Only) \<rparr>)"

subsection \<open>Event detection\<close>

text \<open>
  The debounce test \<open>!this.lastEventTime.T || now - this.lastEventTime.T > gap\<close>: it
  passes when no time is stored for the type, when the stored time is \<open>0\<close>, or when
  more than \<open>gap\<close> milliseconds have passed.
\<close>

definition debounce_ok :: "processor \<Rightarrow> event_type \<Rightarrow> int \<Rightarrow> int \<Rightarrow> bool" where
  "debounce_ok s ty now gap =
     (case lastEventTime s ty of
        None \<Rightarrow> True
      | Some t \<Rightarrow> t = 0 \<or> now - t > gap)"

definition mark_event :: "event_type \<Rightarrow> int \<Rightarrow> processor \<Rightarrow> processor" where
  "mark_event ty now s = s\<lparr> lastEventTime := (lastEventTime s)(ty := Some now) \<rparr>"

definition calculateInstantLongitudinal :: "vec \<Rightarrow> real" where
  "calculateInstantLongitudinal filteredAccel = vec_y filteredAccel"

text \<open>\<open>data.longitudinal_acceleration || this.calculateInstantLongitudinal(...)\<close>.\<close>

definition longitudinal_of :: "enriched \<Rightarrow> vec \<Rightarrow> real" where
  "longitudinal_of d filteredAccel =
     (if truthy (longitudinal_acceleration d)
      then or_zero (longitudinal_acceleration d)
      else calculateInstantLongitudinal filteredAccel)"

text \<open>The four blocks of \<open>detectEventsHybrid\<close>, in the order of the source.\<close>

definition detect_harsh_acceleration ::
    "int \<Rightarrow> enriched \<Rightarrow> processor \<Rightarrow> driving_event list \<times> processor" where
  "detect_harsh_acceleration now d s =
     (case filtered_acceleration d of
        None \<Rightarrow> ([], s)
      | Some f \<Rightarrow>
          let longitudinal = longitudinal_of d f
          in if longitudinal > harsh_acceleration (thresholds s)
                \<and> debounce_ok s Harsh_acceleration now (stability_time (thresholds s))
             then ([\<lparr> ev_type = Harsh_acceleration,
                       ev_severity =
                         calculateSeverity longitudinal (harsh_acceleration (thresholds s)),
                       ev_value = longitudinal,
                       ev_direction = None, ev_speed = None, ev_limit = None,
                       ev_method = Some (detection_method d),
                       ev_timestamp = timestamp d,
                       ev_location = (or_null (lat d), or_null (lon d)),
                       ev_confidence = movement_confidence d \<rparr>],
                   mark_event Harsh_acceleration now s)
             else ([], s))"

definition detect_harsh_braking ::
    "int \<Rightarrow> enriched \<Rightarrow> processor \<Rightarrow> driving_event list \<times> processor" where
  "detect_harsh_braking now d s =
     (case filtered_acceleration d of
        None \<Rightarrow> ([], s)
      | Some f \<Rightarrow>
          let longitudinal = longitudinal_of d f
          in if longitudinal < - harsh_braking (thresholds s)
                \<and> debounce_ok s Harsh_braking now (stability_time (thresholds s))
             then ([\<lparr> ev_type = Harsh_braking,
                       ev_severity =
                         calculateSeverity \<bar>longitudinal\<bar> (harsh_braking (thresholds s)),
                       ev_value = \<bar>longitudinal\<bar>,
                       ev_direction = None, ev_speed = None, ev_limit = None,
                       ev_method = Some (detection_method d),
                       ev_timestamp = timestamp d,
                       ev_location = (or_null (lat d), or_null (lon d)),
                       ev_confidence = movement_confidence d \<rparr>],
                   mark_event Harsh_braking now s)
             else ([], s))"

definition detect_aggressive_turn ::
    "int \<Rightarrow> enriched \<Rightarrow> processor \<Rightarrow> driving_event list \<times> processor" where
  "detect_aggressive_turn now d s =
     (case filtered_acceleration d of
        None \<Rightarrow> ([], s)
      | Some f \<Rightarrow>
          let lateral = \<bar>vec_x f\<bar>
          in if lateral > aggressive_turn (thresholds s)
                \<and> debounce_ok s Aggressive_turn now (stability_time (thresholds s))
             then ([\<lparr> ev_type = Aggressive_turn,
                       ev_severity =
                         calculateSeverity lateral (aggressive_turn (thresholds s)),
                       ev_value = lateral,
                       ev_direction = Some (if vec_x f > 0 then Right_turn else Left_turn),
                       ev_speed = None, ev_limit = None,
                       ev_method = Some (detection_method d),
                       ev_timestamp = timestamp d,
                       ev_location = (or_null (lat d), or_null (lon d)),
                       ev_confidence = movement_confidence d \<rparr>],
                   mark_event Aggressive_turn now s)
             else ([], s))"

definition detect_speeding ::
    "int \<Rightarrow> enriched \<Rightarrow> processor \<Rightarrow> driving_event list \<times> processor" where
  "detect_speeding now d s =
     (if gps_available d \<and> truthy (velocidad d)
      then
        let excess = or_zero (velocidad d) - currentSpeedLimit s
        in if excess > speeding (thresholds s)
              \<and> debounce_ok s Speeding now (stability_time (thresholds s) * 2)
           then ([\<lparr> ev_type = Speeding,
                     ev_severity = calculateSpeedingSeverity excess,
                     ev_value = excess,
                     ev_direction = None,
                     ev_speed = velocidad d,
                     ev_limit = Some (currentSpeedLimit s),
                     ev_method = Some (detection_method d),
                     ev_timestamp = timestamp d,
                     ev_location = (lat d, lon d),
                     ev_confidence = movement_confidence d \<rparr>],
                 mark_event Speeding now s)
           else ([], s)
      else ([], s))"

definition detectEventsHybrid ::
    "int \<Rightarrow> enriched \<Rightarrow> processor \<Rightarrow> driving_event list \<times> processor" where
  "detectEventsHybrid now d s =
     (if \<not> isVehicleMoving s then ([], s)
      else
        let (ev1, s1) = detect_harsh_acceleration now d s;
            (ev2, s2) = detect_harsh_braking now d s1;
            (ev3, s3) = detect_aggressive_turn now d s2;
            (ev4, s4) = detect_speeding now d s3
        in (ev1 @ ev2 @ ev3 @ ev4, s4))"

subsection \<open>The entry point\<close>

definition updateBuffer :: "enriched \<Rightarrow> processor \<Rightarrow> processor" where
  "updateBuffer d s = s\<lparr> dataBuffer := push_bounded (bufferSize s) d (dataBuffer s) \<rparr>"

definition count_event :: "processor \<Rightarrow> driving_event \<Rightarrow> processor" where
  "count_event s e =
     s\<lparr> eventCounters := (eventCounters s)(ev_type e := eventCounters s (ev_type e) + 1) \<rparr>"

text \<open>
  \<open>processDataPoint\<close> returns \<open>null\<close> (\<open>None\<close>) or the result object. Nothing in the
  body throws on the inputs of the model, so the \<open>catch\<close> branch has no counterpart.
\<close>

definition processDataPoint ::
    "int \<Rightarrow> js_arg \<Rightarrow> processor \<Rightarrow> processing_result option \<times> processor" where
  "processDataPoint now rawData s =
     (if now - lastRecordTime s < recordInterval s then (None, s)
      else
        let s1 = s\<lparr> lastRecordTime := now \<rparr>
        in if \<not> validateDataStructure rawData then (None, s1)
           else
             (case rawData of
                Non_object \<Rightarrow> (None, s1)
              | Object r \<Rightarrow>
                  let s2 = updateHybridMovementDetection now r s1;
                      processedData = enrichDataFieldTested r s2;
                      (evs, s3) = detectEventsHybrid now processedData s2;
                      s4 = updateBuffer processedData s3;
                      s5 = foldl count_event s4 evs
                  in (Some \<lparr> processed = processedData, events = evs,
                              counters = eventCounters s5 \<rparr>,
                      s5)))"

text \<open>Feeding a sequence of calls, each with its clock reading; the results in order.\<close>

fun feed ::
    "processor \<Rightarrow> (int \<times> js_arg) list \<Rightarrow> processing_result option list \<times> processor" where
  "feed s [] = ([], s)"
| "feed s ((now, a) # rest) =
     (let (r, s') = processDataPoint now a s;
          (rs, s'') = feed s' rest
      in (r # rs, s''))"

section \<open>The event detector of the calibrated processor (v2.1)\<close>

text \<open>
  The enriched sample of the calibrated variant carries the averaged speed
  \<open>filtered_speed\<close>. Its detector reads, from \<open>this\<close>, the thresholds,
  \<open>isVehicleMoving\<close>, \<open>movementConfidence\<close>, \<open>currentSpeedLimit\<close> and
  \<open>lastEventTime\<close>, and writes \<open>lastEventTime\<close>; these fields have the same names
  and types in both variants, so the detector is embedded over the record \<open>processor\<close>.
\<close>

record enriched_v21 = enriched +
  filtered_speed :: "real option"

definition detect_harsh_acceleration_v21 ::
    "int \<Rightarrow> enriched_v21 \<Rightarrow> processor \<Rightarrow> driving_event list \<times> processor" where
  "detect_harsh_acceleration_v21 now d s =
     (if truthy (longitudinal_acceleration d)
         \<and> or_zero (longitudinal_acceleration d) > harsh_acceleration (thresholds s)
         \<and> debounce_ok s Harsh_acceleration now (stability_time (thresholds s))
      then ([\<lparr> ev_type = Harsh_acceleration,
                ev_severity =
                  calculateSeverity_v21 (or_zero (longitudinal_acceleration d))
                    (harsh_acceleration (thresholds s)),
                ev_value = or_zero (longitudinal_acceleration d),
                ev_direction = None,
                ev_speed = filtered_speed d,
                ev_limit = None,
                ev_method = None,
                ev_timestamp = timestamp d,
                ev_location = (lat d, lon d),
                ev_confidence = movementConfidence s \<rparr>],
            mark_event Harsh_acceleration now s)
      else ([], s))"

definition detect_harsh_braking_v21 ::
    "int \<Rightarrow> enriched_v21 \<Rightarrow> processor \<Rightarrow> driving_event list \<times> processor" where
  "detect_harsh_braking_v21 now d s =
     (if truthy (longitudinal_acceleration d)
         \<and> or_zero (longitudinal_acceleration d) < - harsh_braking (thresholds s)
         \<and> debounce_ok s Harsh_braking now (stability_time (thresholds s))
      then ([\<lparr> ev_type = Harsh_braking,
                ev_severity =
                  calculateSeverity_v21 \<bar>or_zero (longitudinal_acceleration d)\<bar>
                    (harsh_braking (thresholds s)),
                ev_value = \<bar>or_zero (longitudinal_acceleration d)\<bar>,
                ev_direction = None,
                ev_speed = filtered_speed d,
                ev_limit = None,
                ev_method = None,
                ev_timestamp = timestamp d,
                ev_location = (lat d, lon d),
                ev_confidence = movementConfidence s \<rparr>],
            mark_event Harsh_braking now s)
      else ([], s))"

definition detect_aggressive_turn_v21 ::
    "int \<Rightarrow> enriched_v21 \<Rightarrow> processor \<Rightarrow> driving_event list \<times> processor" where
  "detect_aggressive_turn_v21 now d s =
     (case (filtered_acceleration d, filtered_speed d) of
        (Some f, Some fs) \<Rightarrow>
          if fs > 15
          then
            let lateralG = \<bar>vec_x f\<bar>
            in if lateralG > aggressive_turn (thresholds s)
                  \<and> debounce_ok s Aggressive_turn now (stability_time (thresholds s))
               then ([\<lparr> ev_type = Aggressive_turn,
                         ev_severity =
                           calculateSeverity_v21 lateralG (aggressive_turn (thresholds s)),
                         ev_value = lateralG,
                         ev_direction =
                           Some (if vec_x f > 0 then Right_turn else Left_turn),
                         ev_speed = filtered_speed d,
                         ev_limit = None,
                         ev_method = None,
                         ev_timestamp = timestamp d,
                         ev_location = (lat d, lon d),
                         ev_confidence = movementConfidence s \<rparr>],
                     mark_event Aggressive_turn now s)
               else ([], s)
          else ([], s)
      | _ \<Rightarrow> ([], s))"

definition detect_speeding_v21 ::
    "int \<Rightarrow> enriched_v21 \<Rightarrow> processor \<Rightarrow> driving_event list \<times> processor" where
  "detect_speeding_v21 now d s =
     (if truthy (filtered_speed d) \<and> or_zero (filtered_speed d) > 30
      then
        let excess = or_zero (filtered_speed d) - currentSpeedLimit s
        in if excess > speeding (thresholds s)
              \<and> debounce_ok s Speeding now (stability_time (thresholds s) * 3)
           then ([\<lparr> ev_type = Speeding,
                     ev_severity = calculateSpeedingSeverity excess,
                     ev_value = excess,
                     ev_direction = None,
                     ev_speed = filtered_speed d,
                     ev_limit = Some (currentSpeedLimit s),
                     ev_method = None,
                     ev_timestamp = timestamp d,
                     ev_location = (lat d, lon d),
                     ev_confidence = movementConfidence s \<rparr>],
                 mark_event Speeding now s)
           else ([], s)
      else ([], s))"

definition detectDrivingEventsFiltered ::
    "int \<Rightarrow> enriched_v21 \<Rightarrow> processor \<Rightarrow> driving_event list \<times> processor" where
  "detectDrivingEventsFiltered now d s =
     (if \<not> isVehicleMoving s \<or> or_zero (filtered_speed d) < minimum_speed (thresholds s)
      then ([], s)
      else
        let (ev1, s1) = detect_harsh_acceleration_v21 now d s;
            (ev2, s2) = detect_harsh_braking_v21 now d s1;
            (ev3, s3) = detect_aggressive_turn_v21 now d s2;
            (ev4, s4) = detect_speeding_v21 now d s3
        in (ev1 @ ev2 @ ev3 @ ev4, s4))"


section \<open>Notions used to state the properties\<close>



text \<open>
  The confidence rule in the words of the specification: with GPS, 40 for the speed test,
  30 for GPS displacement, 30 for the accelerometer flag; without GPS, 70 for the
  accelerometer flag and 30 for sustained motion; capped at 100.
\<close>

definition confidence_spec :: "bool \<Rightarrow> bool \<Rightarrow> bool \<Rightarrow> bool \<Rightarrow> bool \<Rightarrow> nat" where
  "confidence_spec gps speedOver gpsDisplacement accelFlag sustained =
     min 100
       (if gps
        then (if speedOver then 40 else 0) + (if gpsDisplacement then 30 else 0)
             + (if accelFlag then 30 else 0)
        else (if accelFlag then 70 else 0) + (if sustained then 30 else 0))"

text \<open>
  The evidence flags of one call of \<open>updateHybridMovementDetection\<close>, read off the
  calls it makes, in its order: the GPS part first, then the accelerometer part on the
  state the GPS part leaves, then \<open>hasSustainedMotion\<close> on the state after both.
\<close>

definition hasGPS :: "raw_data \<Rightarrow> bool" where
  "hasGPS d = (truthy (lat d) \<and> truthy (lon d))"

definition speedCriteria_of :: "raw_data \<Rightarrow> processor \<Rightarrow> bool" where
  "speedCriteria_of d s = (hasGPS d \<and> or_zero (velocidad d) > minimum_speed (thresholds s))"

definition gpsMotion_of :: "int \<Rightarrow> raw_data \<Rightarrow> processor \<Rightarrow> bool" where
  "gpsMotion_of now d s = (hasGPS d \<and> fst (hasGPSMovement now d (s\<lparr> gpsAvailable := True \<rparr>)))"

definition after_gps :: "int \<Rightarrow> raw_data \<Rightarrow> processor \<Rightarrow> processor" where
  "after_gps now d s =
     (if hasGPS d then snd (hasGPSMovement now d (s\<lparr> gpsAvailable := True \<rparr>))
      else s\<lparr> gpsAvailable := False \<rparr>)"

definition accelMotion_of :: "int \<Rightarrow> raw_data \<Rightarrow> processor \<Rightarrow> bool" where
  "accelMotion_of now d s = fst (detectMotionFromAccelerometer now d (after_gps now d s))"

definition sustained_of :: "int \<Rightarrow> raw_data \<Rightarrow> processor \<Rightarrow> bool" where
  "sustained_of now d s =
     hasSustainedMotion (snd (detectMotionFromAccelerometer now d (after_gps now d s)))"

text \<open>
  A processor as the constructor leaves it, with the configuration (thresholds, buffer
  size, record interval, speed limits) of a given one.
\<close>

definition fresh_session :: "processor \<Rightarrow> processor" where
  "fresh_session s =
     DataProcessor_new
       \<lparr> thresholds := thresholds s, bufferSize := bufferSize s,
         recordInterval := recordInterval s, speedLimits := speedLimits s,
         currentSpeedLimit := currentSpeedLimit s \<rparr>"



text \<open>
  The test of \<open>detectMotionFromAccelerometer\<close> on the three axes, and the entry it adds
  to the acceleration history when the test passes.
\<close>

definition accel_nonzero :: "'a raw_data_scheme \<Rightarrow> bool" where
  "accel_nonzero d = (truthy (data_x d) \<and> truthy (data_y d) \<and> truthy (data_z d))"

definition current_accel :: "int \<Rightarrow> raw_data \<Rightarrow> accel_sample" where
  "current_accel now d =
     \<lparr> acc_x = or_zero (data_x d), acc_y = or_zero (data_y d), acc_z = or_zero (data_z d),
       acc_magnitude =
         sqrt (or_zero (data_x d) ^ 2 + or_zero (data_y d) ^ 2 + or_zero (data_z d) ^ 2),
       acc_timestamp = now \<rparr>"

text \<open>
  What \<open>calculateAccelerationBaseline\<close> and \<open>calculateAccelerationVariation\<close> compute,
  as functions of the fields they read: the rounded mean of the last five entries of
  the history, and the distance of a reading to the baseline.
\<close>

definition mean_baseline :: "accel_sample list \<Rightarrow> baseline option" where
  "mean_baseline h =
     (if length h < 5 then None
      else
        let recent = slice_last 5 h
        in Some
             \<lparr> base_x =
                 fl (foldl (\<lambda>sum a. fl (sum + acc_x a)) 0 recent / real (length recent)),
               base_y =
                 fl (foldl (\<lambda>sum a. fl (sum + acc_y a)) 0 recent / real (length recent)),
               base_z =
                 fl (foldl (\<lambda>sum a. fl (sum + acc_z a)) 0 recent / real (length recent)),
               base_magnitude =
                 fl (foldl (\<lambda>sum a. fl (sum + acc_magnitude a)) 0 recent
                     / real (length recent)) \<rparr>)"

text \<open>
  The mean of a list of numbers as \<open>calculateAccelerationBaseline\<close> computes it for one
  axis. A reading is steady when the mean that the program computes from five copies
  of it is the reading itself; the bound keeps the sum of the five within the finite
  doubles (beyond them the sum of the program is infinite, which is outside the
  model). The rounded mean of five equal doubles is not always that double.
\<close>

definition float_mean :: "real list \<Rightarrow> real" where
  "float_mean xs = fl (foldl (\<lambda>sum x. fl (sum + x)) 0 xs / real (length xs))"

definition steady :: "real \<Rightarrow> bool" where
  "steady c = (\<bar>c\<bar> < 2 ^ 1021 \<and> float_mean (replicate 5 c) = c)"

definition variation_from :: "baseline option \<Rightarrow> accel_sample \<Rightarrow> real" where
  "variation_from bo current =
     (case bo of
        None \<Rightarrow> 0
      | Some b \<Rightarrow>
          sqrt (\<bar>acc_x current - base_x b\<bar> ^ 2 + \<bar>acc_y current - base_y b\<bar> ^ 2
                + \<bar>acc_z current - base_z b\<bar> ^ 2))"

text \<open>
  A result counts towards the acceleration history when the sample was processed and
  its three axes are non-zero numbers.
\<close>

definition counted :: "processing_result option \<Rightarrow> bool" where
  "counted r = (case r of None \<Rightarrow> False | Some res \<Rightarrow> accel_nonzero (processed res))"




text \<open>
  A stationary call: no GPS fields, and the accelerometer reading \<open>(cx, cy, cz)\<close>.
\<close>

definition stationary_call :: "real \<Rightarrow> real \<Rightarrow> real \<Rightarrow> int \<times> js_arg \<Rightarrow> bool" where
  "stationary_call cx cy cz c =
     (case snd c of
        Non_object \<Rightarrow> False
      | Object r \<Rightarrow>
          lat r = None \<and> lon r = None \<and> velocidad r = None
          \<and> data_x r = Some cx \<and> data_y r = Some cy \<and> data_z r = Some cz)"

subsection \<open>Sample inputs\<close>

definition accel_only_data :: "int \<Rightarrow> real \<Rightarrow> real \<Rightarrow> real \<Rightarrow> raw_data" where
  "accel_only_data t dx dy dz =
     \<lparr> timestamp = String_val t, participante = String_val ''P01'',
       lat = None, lon = None, velocidad = None,
       data_x = Some dx, data_y = Some dy, data_z = Some dz \<rparr>"

definition accel_only :: "int \<Rightarrow> real \<Rightarrow> real \<Rightarrow> real \<Rightarrow> js_arg" where
  "accel_only t dx dy dz = Object (accel_only_data t dx dy dz)"

definition gps_accel_data ::
    "int \<Rightarrow> real \<Rightarrow> real \<Rightarrow> real \<Rightarrow> real \<Rightarrow> real \<Rightarrow> real \<Rightarrow> raw_data" where
  "gps_accel_data t la lo v dx dy dz =
     \<lparr> timestamp = String_val t, participante = String_val ''P01'',
       lat = Some la, lon = Some lo, velocidad = Some v,
       data_x = Some dx, data_y = Some dy, data_z = Some dz \<rparr>"

definition gps_accel :: "int \<Rightarrow> real \<Rightarrow> real \<Rightarrow> real \<Rightarrow> real \<Rightarrow> real \<Rightarrow> real \<Rightarrow> js_arg" where
  "gps_accel t la lo v dx dy dz = Object (gps_accel_data t la lo v dx dy dz)"

text \<open>
  Five samples at rest, two seconds apart, the clock equal to the timestamps. The
  readings are doubles whose sums and mean are exact.
\<close>

definition warm_up :: "(int \<times> js_arg) list" where
  "warm_up =
     [(2000, accel_only 2000 1 1 9.75), (4000, accel_only 4000 1 1 9.75),
      (6000, accel_only 6000 1 1 9.75), (8000, accel_only 8000 1 1 9.75),
      (10000, accel_only 10000 1 1 9.75)]"

definition warm_up_gps :: "(int \<times> js_arg) list" where
  "warm_up_gps =
     [(2000, gps_accel 2000 25 (-108) 100 1 1 9.75),
      (4000, gps_accel 4000 25 (-108) 100 1 1 9.75),
      (6000, gps_accel 6000 25 (-108) 100 1 1 9.75),
      (8000, gps_accel 8000 25 (-108) 100 1 1 9.75),
      (10000, gps_accel 10000 25 (-108) 100 1 1 9.75)]"

text \<open>Five samples with the reading \<open>(0, 0, 9.8)\<close>, two seconds apart.\<close>

definition zero_axis_stream :: "(int \<times> js_arg) list" where
  "zero_axis_stream =
     [(2000, accel_only 2000 0 0 9.8), (4000, accel_only 4000 0 0 9.8),
      (6000, accel_only 6000 0 0 9.8), (8000, accel_only 8000 0 0 9.8),
      (10000, accel_only 10000 0 0 9.8)]"

text \<open>A fresh processor whose thresholds were set below zero with \<open>setThresholds\<close>.\<close>

definition negative_thresholds :: processor where
  "negative_thresholds =
     setThresholds (\<lambda>th. th\<lparr> motion_threshold := - 1, harsh_acceleration := - 1 \<rparr>)
       DataProcessor_new"

text \<open>
  Five samples with the constant reading \<open>(1, c, 9.75)\<close>, where \<open>c\<close> is the double
  nearest to 0.11, and a fresh processor whose \<open>motion_threshold\<close> and harsh-braking
  threshold were set to 0.
\<close>

definition drifting_stream :: "(int \<times> js_arg) list" where
  "drifting_stream =
     [(2000, accel_only 2000 1 (7926335344172073 / 2 ^ 56) 9.75),
      (4000, accel_only 4000 1 (7926335344172073 / 2 ^ 56) 9.75),
      (6000, accel_only 6000 1 (7926335344172073 / 2 ^ 56) 9.75),
      (8000, accel_only 8000 1 (7926335344172073 / 2 ^ 56) 9.75),
      (10000, accel_only 10000 1 (7926335344172073 / 2 ^ 56) 9.75)]"

definition zero_thresholds :: processor where
  "zero_thresholds =
     setThresholds (\<lambda>th. th\<lparr> motion_threshold := 0, harsh_braking := 0 \<rparr>) DataProcessor_new"

text \<open>An enriched sample of the calibrated variant with a lateral reading and a speed.\<close>

definition turn_sample_v21 :: "real \<Rightarrow> real \<Rightarrow> enriched_v21" where
  "turn_sample_v21 fx fs =
     \<lparr> timestamp = String_val 20000, participante = String_val ''P01'',
       lat = Some 25, lon = Some (-108), velocidad = Some fs,
       data_x = Some fx, data_y = Some 0, data_z = Some 9.8,
       acceleration_magnitude = None,
       filtered_acceleration = Some \<lparr> vec_x = fx, vec_y = 0, vec_z = 9.8 \<rparr>,
       estimated_speed = None, longitudinal_acceleration = None,
       vehicle_moving = True, movement_confidence = 70,
       gps_available = True, detection_method = GPS_Accel,
       filtered_speed = Some fs \<rparr>"

text \<open>An enriched sample of the field-tested variant with a filtered reading.\<close>

definition hybrid_sample :: "real \<Rightarrow> real \<Rightarrow> real option \<Rightarrow> enriched" where
  "hybrid_sample fx fy v =
     \<lparr> timestamp = String_val 20000, participante = String_val ''P01'',
       lat = Some 25, lon = Some (-108), velocidad = v,
       data_x = Some fx, data_y = Some fy, data_z = Some 9.8,
       acceleration_magnitude = None,
       filtered_acceleration = Some \<lparr> vec_x = fx, vec_y = fy, vec_z = 0 \<rparr>,
       estimated_speed = None, longitudinal_acceleration = None,
       vehicle_moving = True, movement_confidence = 70,
       gps_available = True, detection_method = GPS_Accel \<rparr>"

definition moving_state :: processor where
  "moving_state = DataProcessor_new \<lparr> isVehicleMoving := True, movementConfidence := 70 \<rparr>"

section \<open>Rounding to doubles\<close>

lemma round_even_int: "round_even (of_int n) = n"
  by (simp add: round_even_def)

text \<open>The rounding of a number whose binary exponent is known.\<close>

lemma fl_round:
  assumes "x \<noteq> 0" and "2 powr of_int e \<le> \<bar>x\<bar>" and "\<bar>x\<bar> < 2 powr of_int (e + 1)"
    and "- 1022 \<le> e"
  shows "fl x = of_int (round_even (x / 2 powr of_int (e - 52))) * 2 powr of_int (e - 52)"
proof -
  have pos: "0 < \<bar>x\<bar>" using assms(1) by simp
  have "of_int e \<le> log 2 \<bar>x\<bar>"
    using assms(2) pos by (simp add: le_log_iff)
  moreover have "log 2 \<bar>x\<bar> < of_int (e + 1)"
    using assms(3) pos by (simp add: log_less_iff)
  ultimately have "\<lfloor>log 2 \<bar>x\<bar>\<rfloor> = e"
    by (simp add: floor_eq_iff)
  with assms(1,4) show ?thesis
    by (simp add: fl_def Let_def max_def)
qed

text \<open>A number with a significand of at most 53 bits is a double: rounding keeps it.\<close>

lemma fl_exact:
  assumes "x = of_int m * 2 powr of_int k" and "\<bar>m\<bar> < 2 ^ 53" and "- 1074 \<le> k"
  shows "fl x = x"
proof (cases "x = 0")
  case True
  then show ?thesis by (simp add: fl_def)
next
  case False
  define e where "e = max \<lfloor>log 2 \<bar>x\<bar>\<rfloor> (- 1022) - 52"
  have pos: "0 < \<bar>x\<bar>" using False by simp
  have "\<bar>x\<bar> = of_int \<bar>m\<bar> * 2 powr of_int k"
    by (simp add: assms(1) abs_mult)
  also have "\<dots> < 2 ^ 53 * 2 powr of_int k"
  proof -
    have "real_of_int \<bar>m\<bar> < 2 ^ 53"
      using assms(2) by (metis of_int_less_numeral_power_cancel_iff)
    then show ?thesis by simp
  qed
  also have "\<dots> = 2 powr of_int (53 + k)"
    by (simp add: powr_add powr_realpow [symmetric])
  finally have "log 2 \<bar>x\<bar> < of_int (53 + k)"
    using pos by (simp add: log_less_iff)
  then have "\<lfloor>log 2 \<bar>x\<bar>\<rfloor> < 53 + k"
    by (simp add: floor_less_iff)
  with assms(3) have ek: "e \<le> k" by (simp add: e_def)
  define j where "j = nat (k - e)"
  have kj: "k = e + int j" using ek by (simp add: j_def)
  have q: "x / 2 powr of_int e = of_int (m * 2 ^ j)"
    by (simp add: assms(1) kj powr_add powr_realpow)
  have "fl x = of_int (round_even (x / 2 powr of_int e)) * 2 powr of_int e"
    using False by (simp add: fl_def Let_def e_def)
  also have "\<dots> = of_int (m * 2 ^ j) * 2 powr of_int e"
    by (simp only: q round_even_int)
  also have "\<dots> = x"
    by (simp add: assms(1) kj powr_add powr_realpow)
  finally show ?thesis .
qed

text \<open>
  Two forms for evaluation: a multiple of \<open>2 ^ (- 10)\<close> below \<open>2 ^ 40\<close>, and a
  fraction with a power of two as denominator.
\<close>

lemma fl_dyadic:
  assumes "of_int \<lfloor>x * 2 ^ 10\<rfloor> = x * 2 ^ 10" and "\<bar>x\<bar> < 2 ^ 40"
  shows "fl x = x"
proof (rule fl_exact [where m = "\<lfloor>x * 2 ^ 10\<rfloor>" and k = "- 10"])
  show "x = of_int \<lfloor>x * 2 ^ 10\<rfloor> * 2 powr of_int (- 10)"
    using assms(1) by (auto simp: powr_minus)
  have "\<bar>x * 2 ^ 10\<bar> < 2 ^ 50" using assms(2) by (simp add: abs_mult)
  then have "\<bar>real_of_int \<lfloor>x * 2 ^ 10\<rfloor>\<bar> < 2 ^ 50" by (simp only: assms(1))
  then have "\<bar>\<lfloor>x * 2 ^ 10\<rfloor>\<bar> < 2 ^ 50"
    by (metis of_int_abs of_int_less_numeral_power_cancel_iff)
  then show "\<bar>\<lfloor>x * 2 ^ 10\<rfloor>\<bar> < 2 ^ 53" by simp
qed simp

text \<open>The same for the literals that the evaluation of a sample meets.\<close>

lemma fl_zero: "fl 0 = 0"
  by (simp add: fl_def)

lemma fl_one: "fl 1 = 1"
  by (simp add: fl_dyadic)

lemma fl_numeral: "(numeral n :: real) < 2 ^ 40 \<Longrightarrow> fl (numeral n) = numeral n"
  by (simp add: fl_dyadic)

lemma fl_fraction:
  assumes "real_of_int \<lfloor>(numeral a / numeral b :: real) * 2 ^ 10\<rfloor>
             = numeral a / numeral b * 2 ^ 10"
    and "(numeral a / numeral b :: real) < 2 ^ 40"
  shows "fl (numeral a / numeral b) = numeral a / numeral b"
proof (rule fl_dyadic)
  show "real_of_int \<lfloor>(numeral a / numeral b :: real) * 2 ^ 10\<rfloor>
          = numeral a / numeral b * 2 ^ 10"
    by (rule assms(1))
  have "0 \<le> (numeral a / numeral b :: real)" by simp
  then show "\<bar>numeral a / numeral b :: real\<bar> < 2 ^ 40"
    using assms(2) by (simp only: abs_of_nonneg)
qed

lemma fl_exact_frac:
  assumes "\<bar>m\<bar> < 2 ^ 53" and "n \<le> 1074"
  shows "fl (of_int m / 2 ^ n) = of_int m / 2 ^ n"
proof (rule fl_exact [where m = m and k = "- int n"])
  show "real_of_int m / 2 ^ n = of_int m * 2 powr of_int (- int n)"
    by (simp add: powr_minus powr_realpow divide_simps)
qed (use assms in simp_all)

text \<open>The rounding of a number of magnitude below 1, at the scale \<open>2 ^ (- n)\<close>.\<close>

lemma fl_round_small:
  assumes "1 \<le> \<bar>x\<bar> * 2 ^ n" and "\<bar>x\<bar> * 2 ^ n < 2" and "n \<le> 1022"
  shows "fl x = of_int (round_even (x * 2 ^ (n + 52))) / 2 ^ (n + 52)"
proof -
  have nz: "x \<noteq> 0" using assms(1) by auto
  have p: "(2::real) powr of_int (- int n) = 1 / 2 ^ n"
    by (simp add: powr_minus powr_realpow divide_simps)
  have p1: "(2::real) powr of_int (- int n + 1) = 2 / 2 ^ n"
  proof -
    have "(2::real) powr of_int (- int n + 1) = 2 powr of_int (- int n) * 2 powr 1"
      by (simp only: of_int_add of_int_1 powr_add)
    also have "\<dots> = 1 / 2 ^ n * 2" by (simp only: p powr_one_gt_zero_iff) simp
    finally show ?thesis by simp
  qed
  have p2: "(2::real) powr of_int (- int n - 52) = 1 / 2 ^ (n + 52)"
  proof -
    have "real_of_int (- int n - 52) = - real (n + 52)" by simp
    then have "(2::real) powr of_int (- int n - 52) = 2 powr (- real (n + 52))"
      by (simp only:)
    also have "\<dots> = 1 / 2 ^ (n + 52)"
      by (simp only: powr_minus powr_realpow zero_less_numeral inverse_eq_divide)
    finally show ?thesis .
  qed
  have a: "2 powr of_int (- int n) \<le> \<bar>x\<bar>"
    using assms(1) unfolding p by (simp add: divide_simps)
  have b: "\<bar>x\<bar> < 2 powr of_int (- int n + 1)"
    using assms(2) unfolding p1 by (simp add: divide_simps)
  have c: "- 1022 \<le> - int n" using assms(3) by simp
  show ?thesis
    using fl_round [OF nz a b c] unfolding p2 by simp
qed

text \<open>
  The mean of five equal doubles need not be that double. For the double nearest to
  0.11, which is \<open>7926335344172073 / 2 ^ 56\<close>, the third and the fifth sum and the
  division are rounded, and the mean is the next double. The roundings, in the order
  of the computation:
\<close>

lemma fl_drift:
  "fl (7926335344172073 / 72057594037927936) = 7926335344172073 / 72057594037927936"
  "fl (7926335344172073 / 36028797018963968) = 7926335344172073 / 36028797018963968"
  "fl (23779006032516219 / 72057594037927936) = 5944751508129055 / 18014398509481984"
  "fl (31705341376688293 / 72057594037927936) = 7926335344172073 / 18014398509481984"
  "fl (39631676720860365 / 72057594037927936) = 2476979795053773 / 4503599627370496"
  "fl (2476979795053773 / 22517998136852480) = 3963167672086037 / 36028797018963968"
proof -
  show "fl (7926335344172073 / 72057594037927936) = 7926335344172073 / 72057594037927936"
    using fl_exact_frac [of 7926335344172073 56] by simp
  show "fl (7926335344172073 / 36028797018963968) = 7926335344172073 / 36028797018963968"
    using fl_exact_frac [of 7926335344172073 55] by simp
  show "fl (23779006032516219 / 72057594037927936) = 5944751508129055 / 18014398509481984"
    by (subst fl_round_small [where n = 2]) (simp_all add: round_even_def)
  show "fl (31705341376688293 / 72057594037927936) = 7926335344172073 / 18014398509481984"
    by (subst fl_round_small [where n = 2]) (simp_all add: round_even_def)
  show "fl (39631676720860365 / 72057594037927936) = 2476979795053773 / 4503599627370496"
    by (subst fl_round_small [where n = 1]) (simp_all add: round_even_def)
  show "fl (2476979795053773 / 22517998136852480) = 3963167672086037 / 36028797018963968"
    by (subst fl_round_small [where n = 4]) (simp_all add: round_even_def)
qed

lemma foldl_replicate_5: "foldl f z (replicate 5 c) = f (f (f (f (f z c) c) c) c) c"
  by (simp add: eval_nat_numeral)

lemma mean_of_equal_doubles_differs:
  "float_mean (replicate 5 (7926335344172073 / 2 ^ 56)) = 7926335344172074 / 2 ^ 56
   \<and> \<not> steady (7926335344172073 / 2 ^ 56)"
proof -
  have "float_mean (replicate 5 (7926335344172073 / 2 ^ 56)) = 7926335344172074 / 2 ^ 56"
    by (simp add: float_mean_def foldl_replicate_5 fl_drift)
  then show ?thesis by (simp add: steady_def)
qed

section \<open>Evaluation\<close>

lemmas processor_defs =
  feed.simps processDataPoint_def validateDataStructure_def
  updateHybridMovementDetection_def combine_evidence_def hasGPSMovement_def
  detectMotionFromAccelerometer_def
  calculateAccelerationBaseline_def calculateAccelerationVariation_def hasSustainedMotion_def
  enrichDataFieldTested_def calculateFilteredAcceleration_def
  estimateSpeedFromAccelerometer_def calculateLongitudinalAcceleration_def
  detectEventsHybrid_def detect_harsh_acceleration_def detect_harsh_braking_def
  detect_aggressive_turn_def detect_speeding_def debounce_ok_def mark_event_def
  longitudinal_of_def calculateInstantLongitudinal_def updateBuffer_def count_event_def
  truthy_def or_zero_def or_null_def slice_last_def push_bounded_def
  calculateSeverity_def js_divide_def at_least_def calculateSpeedingSeverity_def
  calculateDistance_def atan2_def fl_zero fl_one fl_numeral fl_fraction

lemmas v21_defs =
  detectDrivingEventsFiltered_def detect_harsh_acceleration_v21_def
  detect_harsh_braking_v21_def detect_aggressive_turn_v21_def detect_speeding_v21_def
  debounce_ok_def mark_event_def truthy_def or_zero_def calculateSeverity_v21_def
  js_divide_def at_least_def calculateSpeedingSeverity_def

lemmas sample_defs =
  accel_only_def accel_only_data_def gps_accel_def gps_accel_data_def warm_up_def
  warm_up_gps_def DataProcessor_new_def
  setThresholds_def resetCounters_def turn_sample_v21_def hybrid_sample_def
  moving_state_def zero_axis_stream_def negative_thresholds_def drifting_stream_def
  zero_thresholds_def

text \<open>Congruence rules that make the simplifier evaluate an argument before a body.\<close>

lemmas by_value =
  let_weak_cong prod.case_cong_weak option.case_cong_weak js_arg.case_cong_weak
  js_field.case_cong_weak

lemma sqrt_16: "sqrt 16 = 4"
  by (rule real_sqrt_unique) simp_all


lemma sqrt_drift: "sqrt (1 / 5192296858534827628530496329220096) = 1 / 72057594037927936"
  by (rule real_sqrt_unique) (simp_all add: power_divide)

section \<open>The event detectors, block by block\<close>

text \<open>
  Each block of a detector emits at most one event, of its own type, and records the
  clock for that type only; a block does not read what the other blocks write.
\<close>

subsection \<open>Blocks of the field-tested detector\<close>

lemma accel_snd:
  "snd (detect_harsh_acceleration now d s) =
     s\<lparr> lastEventTime := (lastEventTime s)(Harsh_acceleration :=
          (if fst (detect_harsh_acceleration now d s) = [] then lastEventTime s Harsh_acceleration
           else Some now)) \<rparr>"
  by (simp add: detect_harsh_acceleration_def mark_event_def Let_def split: option.split)

lemma braking_snd:
  "snd (detect_harsh_braking now d s) =
     s\<lparr> lastEventTime := (lastEventTime s)(Harsh_braking :=
          (if fst (detect_harsh_braking now d s) = [] then lastEventTime s Harsh_braking
           else Some now)) \<rparr>"
  by (simp add: detect_harsh_braking_def mark_event_def Let_def split: option.split)

lemma turn_snd:
  "snd (detect_aggressive_turn now d s) =
     s\<lparr> lastEventTime := (lastEventTime s)(Aggressive_turn :=
          (if fst (detect_aggressive_turn now d s) = [] then lastEventTime s Aggressive_turn
           else Some now)) \<rparr>"
  by (simp add: detect_aggressive_turn_def mark_event_def Let_def split: option.split)

lemma speeding_snd:
  "snd (detect_speeding now d s) =
     s\<lparr> lastEventTime := (lastEventTime s)(Speeding :=
          (if fst (detect_speeding now d s) = [] then lastEventTime s Speeding
           else Some now)) \<rparr>"
  by (simp add: detect_speeding_def mark_event_def Let_def)

lemma braking_indep:
  "L Harsh_braking = lastEventTime s Harsh_braking \<Longrightarrow>
   fst (detect_harsh_braking now d (s\<lparr> lastEventTime := L \<rparr>)) = fst (detect_harsh_braking now d s)"
  by (simp add: detect_harsh_braking_def debounce_ok_def Let_def split: option.split)

lemma turn_indep:
  "L Aggressive_turn = lastEventTime s Aggressive_turn \<Longrightarrow>
   fst (detect_aggressive_turn now d (s\<lparr> lastEventTime := L \<rparr>)) = fst (detect_aggressive_turn now d s)"
  by (simp add: detect_aggressive_turn_def debounce_ok_def Let_def split: option.split)

lemma speeding_indep:
  "L Speeding = lastEventTime s Speeding \<Longrightarrow>
   fst (detect_speeding now d (s\<lparr> lastEventTime := L \<rparr>)) = fst (detect_speeding now d s)"
  by (simp add: detect_speeding_def debounce_ok_def Let_def)

lemma hybrid_events:
  "fst (detectEventsHybrid now d s) =
     (if isVehicleMoving s
      then fst (detect_harsh_acceleration now d s) @ fst (detect_harsh_braking now d s)
           @ fst (detect_aggressive_turn now d s) @ fst (detect_speeding now d s)
      else [])"
  by (simp add: detectEventsHybrid_def Let_def split_beta accel_snd braking_snd turn_snd
      braking_indep turn_indep speeding_indep)



lemma accel_fst:
  "e \<in> set (fst (detect_harsh_acceleration now d s)) \<Longrightarrow>
   ev_type e = Harsh_acceleration
   \<and> ev_severity e = calculateSeverity (ev_value e) (harsh_acceleration (thresholds s))
   \<and> debounce_ok s Harsh_acceleration now (stability_time (thresholds s))
   \<and> harsh_acceleration (thresholds s) < ev_value e"
  by (auto simp: detect_harsh_acceleration_def Let_def split: option.splits if_splits)

lemma braking_fst:
  "e \<in> set (fst (detect_harsh_braking now d s)) \<Longrightarrow>
   ev_type e = Harsh_braking
   \<and> ev_severity e = calculateSeverity (ev_value e) (harsh_braking (thresholds s))
   \<and> debounce_ok s Harsh_braking now (stability_time (thresholds s))
   \<and> harsh_braking (thresholds s) < ev_value e"
  by (auto simp: detect_harsh_braking_def Let_def split: option.splits if_splits)

lemma turn_fst:
  "e \<in> set (fst (detect_aggressive_turn now d s)) \<Longrightarrow>
   ev_type e = Aggressive_turn
   \<and> ev_severity e = calculateSeverity (ev_value e) (aggressive_turn (thresholds s))
   \<and> debounce_ok s Aggressive_turn now (stability_time (thresholds s))
   \<and> aggressive_turn (thresholds s) < ev_value e"
  by (auto simp: detect_aggressive_turn_def Let_def split: option.splits if_splits)

lemma speeding_fst:
  "e \<in> set (fst (detect_speeding now d s)) \<Longrightarrow>
   ev_type e = Speeding
   \<and> debounce_ok s Speeding now (stability_time (thresholds s) * 2)
   \<and> gps_available d \<and> truthy (velocidad d)"
  by (auto simp: detect_speeding_def Let_def split: option.splits if_splits)








lemma hybrid_frame:
  "snd (detectEventsHybrid now d s) =
     s\<lparr> lastEventTime := lastEventTime (snd (detectEventsHybrid now d s)) \<rparr>"
  by (simp add: detectEventsHybrid_def Let_def split_beta accel_snd braking_snd turn_snd
      speeding_snd)


subsection \<open>Blocks of the calibrated detector\<close>

lemma accel_v21_snd:
  "snd (detect_harsh_acceleration_v21 now d s) =
     s\<lparr> lastEventTime := (lastEventTime s)(Harsh_acceleration :=
          (if fst (detect_harsh_acceleration_v21 now d s) = []
           then lastEventTime s Harsh_acceleration else Some now)) \<rparr>"
  by (simp add: detect_harsh_acceleration_v21_def mark_event_def Let_def)

lemma braking_v21_snd:
  "snd (detect_harsh_braking_v21 now d s) =
     s\<lparr> lastEventTime := (lastEventTime s)(Harsh_braking :=
          (if fst (detect_harsh_braking_v21 now d s) = []
           then lastEventTime s Harsh_braking else Some now)) \<rparr>"
  by (simp add: detect_harsh_braking_v21_def mark_event_def Let_def)

lemma turn_v21_snd:
  "snd (detect_aggressive_turn_v21 now d s) =
     s\<lparr> lastEventTime := (lastEventTime s)(Aggressive_turn :=
          (if fst (detect_aggressive_turn_v21 now d s) = []
           then lastEventTime s Aggressive_turn else Some now)) \<rparr>"
  by (simp add: detect_aggressive_turn_v21_def mark_event_def Let_def split: option.split)


lemma braking_v21_indep:
  "L Harsh_braking = lastEventTime s Harsh_braking \<Longrightarrow>
   fst (detect_harsh_braking_v21 now d (s\<lparr> lastEventTime := L \<rparr>))
     = fst (detect_harsh_braking_v21 now d s)"
  by (simp add: detect_harsh_braking_v21_def debounce_ok_def Let_def)

lemma turn_v21_indep:
  "L Aggressive_turn = lastEventTime s Aggressive_turn \<Longrightarrow>
   fst (detect_aggressive_turn_v21 now d (s\<lparr> lastEventTime := L \<rparr>))
     = fst (detect_aggressive_turn_v21 now d s)"
  by (simp add: detect_aggressive_turn_v21_def debounce_ok_def Let_def split: option.split)

lemma speeding_v21_indep:
  "L Speeding = lastEventTime s Speeding \<Longrightarrow>
   fst (detect_speeding_v21 now d (s\<lparr> lastEventTime := L \<rparr>))
     = fst (detect_speeding_v21 now d s)"
  by (simp add: detect_speeding_v21_def debounce_ok_def Let_def)

lemma filtered_events:
  "fst (detectDrivingEventsFiltered now d s) =
     (if \<not> isVehicleMoving s \<or> or_zero (filtered_speed d) < minimum_speed (thresholds s)
      then []
      else fst (detect_harsh_acceleration_v21 now d s) @ fst (detect_harsh_braking_v21 now d s)
           @ fst (detect_aggressive_turn_v21 now d s) @ fst (detect_speeding_v21 now d s))"
  by (simp add: detectDrivingEventsFiltered_def Let_def split_beta accel_v21_snd
      braking_v21_snd turn_v21_snd braking_v21_indep turn_v21_indep speeding_v21_indep)


lemma accel_v21_fst:
  "e \<in> set (fst (detect_harsh_acceleration_v21 now d s)) \<Longrightarrow>
   ev_type e = Harsh_acceleration
   \<and> ev_severity e = calculateSeverity_v21 (ev_value e) (harsh_acceleration (thresholds s))
   \<and> debounce_ok s Harsh_acceleration now (stability_time (thresholds s))
   \<and> harsh_acceleration (thresholds s) < ev_value e"
  by (auto simp: detect_harsh_acceleration_v21_def Let_def split: if_splits)

lemma braking_v21_fst:
  "e \<in> set (fst (detect_harsh_braking_v21 now d s)) \<Longrightarrow>
   ev_type e = Harsh_braking
   \<and> ev_severity e = calculateSeverity_v21 (ev_value e) (harsh_braking (thresholds s))
   \<and> debounce_ok s Harsh_braking now (stability_time (thresholds s))
   \<and> harsh_braking (thresholds s) < ev_value e"
  by (auto simp: detect_harsh_braking_v21_def Let_def split: if_splits)

lemma turn_v21_fst:
  "e \<in> set (fst (detect_aggressive_turn_v21 now d s)) \<Longrightarrow>
   ev_type e = Aggressive_turn
   \<and> ev_severity e = calculateSeverity_v21 (ev_value e) (aggressive_turn (thresholds s))
   \<and> debounce_ok s Aggressive_turn now (stability_time (thresholds s))
   \<and> aggressive_turn (thresholds s) < ev_value e
   \<and> (\<exists>fs. filtered_speed d = Some fs \<and> 15 < fs)"
  by (auto simp: detect_aggressive_turn_v21_def Let_def split: option.splits if_splits)

lemma speeding_v21_fst:
  "e \<in> set (fst (detect_speeding_v21 now d s)) \<Longrightarrow>
   ev_type e = Speeding
   \<and> debounce_ok s Speeding now (stability_time (thresholds s) * 3)"
  by (auto simp: detect_speeding_v21_def Let_def split: if_splits)





lemma filtered_turn_needs_speed:
  "e \<in> set (fst (detectDrivingEventsFiltered now d s)) \<Longrightarrow> ev_type e = Aggressive_turn \<Longrightarrow>
   \<exists>fs. filtered_speed d = Some fs \<and> 15 < fs"
  by (auto simp: filtered_events split: if_splits
      dest: accel_v21_fst braking_v21_fst turn_v21_fst speeding_v21_fst)

lemma hybrid_turn_iff:
  "(\<exists>e \<in> set (fst (detectEventsHybrid now d s)). ev_type e = Aggressive_turn) \<longleftrightarrow>
   isVehicleMoving s
   \<and> (\<exists>f. filtered_acceleration d = Some f \<and> aggressive_turn (thresholds s) < \<bar>vec_x f\<bar>)
   \<and> debounce_ok s Aggressive_turn now (stability_time (thresholds s))"
proof -
  have t: "(\<exists>e \<in> set (fst (detect_aggressive_turn now d s)). ev_type e = Aggressive_turn) \<longleftrightarrow>
     (\<exists>f. filtered_acceleration d = Some f \<and> aggressive_turn (thresholds s) < \<bar>vec_x f\<bar>)
     \<and> debounce_ok s Aggressive_turn now (stability_time (thresholds s))"
    by (auto simp: detect_aggressive_turn_def Let_def split: option.splits)
  have a: "\<not> (\<exists>e \<in> set (fst (detect_harsh_acceleration now d s)). ev_type e = Aggressive_turn)"
    by (auto dest: accel_fst)
  have b: "\<not> (\<exists>e \<in> set (fst (detect_harsh_braking now d s)). ev_type e = Aggressive_turn)"
    by (auto dest: braking_fst)
  have c: "\<not> (\<exists>e \<in> set (fst (detect_speeding now d s)). ev_type e = Aggressive_turn)"
    by (auto dest: speeding_fst)
  show ?thesis
    using t a b c by (simp add: hybrid_events bex_Un) blast
qed

subsection \<open>Severity breakpoints and the debounce test\<close>






section \<open>The movement update and the entry point\<close>

subsection \<open>What each step leaves unchanged\<close>

lemma hasGPSMovement_keeps:
  "thresholds (snd (hasGPSMovement now d s)) = thresholds s
   \<and> eventCounters (snd (hasGPSMovement now d s)) = eventCounters s
   \<and> dataBuffer (snd (hasGPSMovement now d s)) = dataBuffer s
   \<and> bufferSize (snd (hasGPSMovement now d s)) = bufferSize s
   \<and> accelerationHistory (snd (hasGPSMovement now d s)) = accelerationHistory s
   \<and> motionHistory (snd (hasGPSMovement now d s)) = motionHistory s
   \<and> baselineAcceleration (snd (hasGPSMovement now d s)) = baselineAcceleration s
   \<and> lastEventTime (snd (hasGPSMovement now d s)) = lastEventTime s
   \<and> isVehicleMoving (snd (hasGPSMovement now d s)) = isVehicleMoving s
   \<and> movementConfidence (snd (hasGPSMovement now d s)) = movementConfidence s
   \<and> gpsAvailable (snd (hasGPSMovement now d s)) = gpsAvailable s
   \<and> lastRecordTime (snd (hasGPSMovement now d s)) = lastRecordTime s
   \<and> recordInterval (snd (hasGPSMovement now d s)) = recordInterval s
   \<and> speedLimits (snd (hasGPSMovement now d s)) = speedLimits s
   \<and> currentSpeedLimit (snd (hasGPSMovement now d s)) = currentSpeedLimit s
   \<and> wasMoving (snd (hasGPSMovement now d s)) = wasMoving s"
  by (simp add: hasGPSMovement_def Let_def split: option.split)

lemma detectMotion_keeps:
  "thresholds (snd (detectMotionFromAccelerometer now d s)) = thresholds s
   \<and> eventCounters (snd (detectMotionFromAccelerometer now d s)) = eventCounters s
   \<and> dataBuffer (snd (detectMotionFromAccelerometer now d s)) = dataBuffer s
   \<and> bufferSize (snd (detectMotionFromAccelerometer now d s)) = bufferSize s
   \<and> lastEventTime (snd (detectMotionFromAccelerometer now d s)) = lastEventTime s
   \<and> isVehicleMoving (snd (detectMotionFromAccelerometer now d s)) = isVehicleMoving s
   \<and> movementConfidence (snd (detectMotionFromAccelerometer now d s)) = movementConfidence s
   \<and> gpsAvailable (snd (detectMotionFromAccelerometer now d s)) = gpsAvailable s
   \<and> lastRecordTime (snd (detectMotionFromAccelerometer now d s)) = lastRecordTime s
   \<and> recordInterval (snd (detectMotionFromAccelerometer now d s)) = recordInterval s
   \<and> speedLimits (snd (detectMotionFromAccelerometer now d s)) = speedLimits s
   \<and> currentSpeedLimit (snd (detectMotionFromAccelerometer now d s)) = currentSpeedLimit s
   \<and> lastGPSPoint (snd (detectMotionFromAccelerometer now d s)) = lastGPSPoint s
   \<and> wasMoving (snd (detectMotionFromAccelerometer now d s)) = wasMoving s"
  by (simp add: detectMotionFromAccelerometer_def Let_def split: option.split)

lemma after_gps_keeps:
  "thresholds (after_gps now d s) = thresholds s
   \<and> eventCounters (after_gps now d s) = eventCounters s
   \<and> dataBuffer (after_gps now d s) = dataBuffer s
   \<and> bufferSize (after_gps now d s) = bufferSize s
   \<and> accelerationHistory (after_gps now d s) = accelerationHistory s
   \<and> motionHistory (after_gps now d s) = motionHistory s
   \<and> baselineAcceleration (after_gps now d s) = baselineAcceleration s
   \<and> lastEventTime (after_gps now d s) = lastEventTime s
   \<and> isVehicleMoving (after_gps now d s) = isVehicleMoving s
   \<and> movementConfidence (after_gps now d s) = movementConfidence s
   \<and> gpsAvailable (after_gps now d s) = hasGPS d
   \<and> lastRecordTime (after_gps now d s) = lastRecordTime s
   \<and> recordInterval (after_gps now d s) = recordInterval s
   \<and> speedLimits (after_gps now d s) = speedLimits s
   \<and> currentSpeedLimit (after_gps now d s) = currentSpeedLimit s
   \<and> wasMoving (after_gps now d s) = wasMoving s"
  by (simp add: after_gps_def hasGPSMovement_keeps)

lemma set_wasMoving_idem: "wasMoving s = v \<Longrightarrow> s\<lparr> wasMoving := v \<rparr> = s"
  by (cases s) simp

lemma log_change:
  "(let s3 = s\<lparr> movementConfidence := c \<rparr>;
        threshold = (if gpsAvailable s3 then 50 else 40);
        s4 = s3\<lparr> isVehicleMoving := (movementConfidence s3 > threshold) \<rparr>
    in if Some (isVehicleMoving s4) \<noteq> wasMoving s4
       then s4\<lparr> wasMoving := Some (isVehicleMoving s4) \<rparr>
       else s4)
   = s\<lparr> movementConfidence := c,
        isVehicleMoving := ((if gpsAvailable s then 50 else 40) < c),
        wasMoving := Some ((if gpsAvailable s then 50 else 40) < c) \<rparr>"
  by (cases "gpsAvailable s") (simp_all add: Let_def set_wasMoving_idem)

lemma combine_evidence_shape:
  "combine_evidence sc gm am s =
     s\<lparr> movementConfidence := confidence_spec (gpsAvailable s) sc gm am (hasSustainedMotion s),
        isVehicleMoving :=
          ((if gpsAvailable s then 50 else 40)
           < confidence_spec (gpsAvailable s) sc gm am (hasSustainedMotion s)),
        wasMoving :=
          Some ((if gpsAvailable s then 50 else 40)
                < confidence_spec (gpsAvailable s) sc gm am (hasSustainedMotion s)) \<rparr>"
proof -
  have "combine_evidence sc gm am s =
          (let s3 = s\<lparr> movementConfidence :=
                      confidence_spec (gpsAvailable s) sc gm am (hasSustainedMotion s) \<rparr>;
               threshold = (if gpsAvailable s3 then 50 else 40);
               s4 = s3\<lparr> isVehicleMoving := (movementConfidence s3 > threshold) \<rparr>
           in if Some (isVehicleMoving s4) \<noteq> wasMoving s4
              then s4\<lparr> wasMoving := Some (isVehicleMoving s4) \<rparr>
              else s4)"
    unfolding combine_evidence_def confidence_spec_def
    by (simp only: Let_def min.commute)
  then show ?thesis
    by (simp only: log_change)
qed

lemma gather_evidence:
  "(if hasGPS d
    then (minimum_speed (thresholds (s\<lparr> gpsAvailable := hasGPS d \<rparr>)) < or_zero (velocidad d),
          fst (hasGPSMovement now d (s\<lparr> gpsAvailable := hasGPS d \<rparr>)),
          snd (hasGPSMovement now d (s\<lparr> gpsAvailable := hasGPS d \<rparr>)))
    else (False, False, s\<lparr> gpsAvailable := hasGPS d \<rparr>))
   = (speedCriteria_of d s, gpsMotion_of now d s, after_gps now d s)"
  by (simp add: speedCriteria_of_def gpsMotion_of_def after_gps_def)

text \<open>The movement update, in terms of its evidence flags.\<close>

lemma update_shape:
  "updateHybridMovementDetection now d s =
     (snd (detectMotionFromAccelerometer now d (after_gps now d s)))
       \<lparr> movementConfidence :=
           confidence_spec (hasGPS d) (speedCriteria_of d s) (gpsMotion_of now d s)
             (accelMotion_of now d s) (sustained_of now d s),
         isVehicleMoving :=
           ((if hasGPS d then 50 else 40)
            < confidence_spec (hasGPS d) (speedCriteria_of d s) (gpsMotion_of now d s)
                (accelMotion_of now d s) (sustained_of now d s)),
         wasMoving :=
           Some ((if hasGPS d then 50 else 40)
                 < confidence_spec (hasGPS d) (speedCriteria_of d s) (gpsMotion_of now d s)
                     (accelMotion_of now d s) (sustained_of now d s)) \<rparr>"
proof -
  have "updateHybridMovementDetection now d s =
          combine_evidence (speedCriteria_of d s) (gpsMotion_of now d s)
            (accelMotion_of now d s)
            (snd (detectMotionFromAccelerometer now d (after_gps now d s)))"
    unfolding updateHybridMovementDetection_def hasGPS_def [symmetric] Let_def split_beta
    by (simp only: gather_evidence fst_conv snd_conv accelMotion_of_def)
  then show ?thesis
    by (simp only: combine_evidence_shape detectMotion_keeps after_gps_keeps sustained_of_def)
qed

lemma confidence_spec_le: "confidence_spec g a b c e \<le> 100"
  by (simp add: confidence_spec_def)


lemma detectMotion_zero:
  "\<not> accel_nonzero d \<Longrightarrow> detectMotionFromAccelerometer now d s = (False, s)"
  by (auto simp: detectMotionFromAccelerometer_def accel_nonzero_def truthy_def
      split: option.splits)

lemma detectMotion_history:
  "accelerationHistory (snd (detectMotionFromAccelerometer now d s)) =
     (if accel_nonzero d
      then push_bounded 10 (current_accel now d) (accelerationHistory s)
      else accelerationHistory s)"
  by (auto simp: detectMotionFromAccelerometer_def accel_nonzero_def truthy_def
      current_accel_def or_zero_def Let_def split: option.splits)



subsection \<open>One call of the entry point\<close>

lemma foldl_count_event_keeps:
  "thresholds (foldl count_event s evs) = thresholds s
   \<and> dataBuffer (foldl count_event s evs) = dataBuffer s
   \<and> bufferSize (foldl count_event s evs) = bufferSize s
   \<and> accelerationHistory (foldl count_event s evs) = accelerationHistory s
   \<and> motionHistory (foldl count_event s evs) = motionHistory s
   \<and> baselineAcceleration (foldl count_event s evs) = baselineAcceleration s
   \<and> lastEventTime (foldl count_event s evs) = lastEventTime s
   \<and> isVehicleMoving (foldl count_event s evs) = isVehicleMoving s
   \<and> movementConfidence (foldl count_event s evs) = movementConfidence s
   \<and> gpsAvailable (foldl count_event s evs) = gpsAvailable s
   \<and> lastRecordTime (foldl count_event s evs) = lastRecordTime s
   \<and> recordInterval (foldl count_event s evs) = recordInterval s
   \<and> speedLimits (foldl count_event s evs) = speedLimits s
   \<and> currentSpeedLimit (foldl count_event s evs) = currentSpeedLimit s
   \<and> lastGPSPoint (foldl count_event s evs) = lastGPSPoint s
   \<and> wasMoving (foldl count_event s evs) = wasMoving s"
  by (induction evs arbitrary: s) (simp_all add: count_event_def)

lemma hybrid_keeps:
  "thresholds (snd (detectEventsHybrid now d s)) = thresholds s
   \<and> eventCounters (snd (detectEventsHybrid now d s)) = eventCounters s
   \<and> dataBuffer (snd (detectEventsHybrid now d s)) = dataBuffer s
   \<and> bufferSize (snd (detectEventsHybrid now d s)) = bufferSize s
   \<and> accelerationHistory (snd (detectEventsHybrid now d s)) = accelerationHistory s
   \<and> motionHistory (snd (detectEventsHybrid now d s)) = motionHistory s
   \<and> baselineAcceleration (snd (detectEventsHybrid now d s)) = baselineAcceleration s
   \<and> isVehicleMoving (snd (detectEventsHybrid now d s)) = isVehicleMoving s
   \<and> movementConfidence (snd (detectEventsHybrid now d s)) = movementConfidence s
   \<and> gpsAvailable (snd (detectEventsHybrid now d s)) = gpsAvailable s
   \<and> lastRecordTime (snd (detectEventsHybrid now d s)) = lastRecordTime s
   \<and> recordInterval (snd (detectEventsHybrid now d s)) = recordInterval s
   \<and> speedLimits (snd (detectEventsHybrid now d s)) = speedLimits s
   \<and> currentSpeedLimit (snd (detectEventsHybrid now d s)) = currentSpeedLimit s
   \<and> lastGPSPoint (snd (detectEventsHybrid now d s)) = lastGPSPoint s
   \<and> wasMoving (snd (detectEventsHybrid now d s)) = wasMoving s"
  by (subst hybrid_frame, simp)+

text \<open>The three outcomes of a call.\<close>

lemma process_gated:
  "now - lastRecordTime s < recordInterval s \<Longrightarrow> processDataPoint now a s = (None, s)"
  by (simp add: processDataPoint_def)

lemma process_invalid:
  "\<not> now - lastRecordTime s < recordInterval s \<Longrightarrow> \<not> validateDataStructure a \<Longrightarrow>
   processDataPoint now a s = (None, s\<lparr> lastRecordTime := now \<rparr>)"
  by (simp add: processDataPoint_def Let_def)

lemma process_accepted:
  "\<not> now - lastRecordTime s < recordInterval s \<Longrightarrow> validateDataStructure (Object r) \<Longrightarrow>
   processDataPoint now (Object r) s =
     (let s2 = updateHybridMovementDetection now r (s\<lparr> lastRecordTime := now \<rparr>);
          e = enrichDataFieldTested r s2;
          s5 = foldl count_event (updateBuffer e (snd (detectEventsHybrid now e s2)))
                 (fst (detectEventsHybrid now e s2))
      in (Some \<lparr> processed = e, events = fst (detectEventsHybrid now e s2),
                  counters = eventCounters s5 \<rparr>, s5))"
  by (simp add: processDataPoint_def Let_def split_beta)

lemma validate_Object:
  "validateDataStructure a \<longleftrightarrow>
   (\<exists>r t p. a = Object r \<and> timestamp r = String_val t \<and> participante r = String_val p)"
  by (auto simp: validateDataStructure_def split: js_arg.splits js_field.splits)

lemma process_None_iff:
  "fst (processDataPoint now a s) = None \<longleftrightarrow>
   now - lastRecordTime s < recordInterval s \<or> \<not> validateDataStructure a"
proof (cases "now - lastRecordTime s < recordInterval s")
  case True
  then show ?thesis by (simp add: process_gated)
next
  case gate: False
  show ?thesis
  proof (cases "validateDataStructure a")
    case False
    with gate show ?thesis by (simp add: process_invalid)
  next
    case True
    then obtain r where "a = Object r" by (auto simp: validate_Object)
    with gate True show ?thesis by (simp add: process_accepted Let_def)
  qed
qed

lemma process_lastRecordTime:
  "lastRecordTime (snd (processDataPoint now a s)) =
     (if now - lastRecordTime s < recordInterval s then lastRecordTime s else now)"
proof (cases "now - lastRecordTime s < recordInterval s")
  case True
  then show ?thesis by (simp add: process_gated)
next
  case gate: False
  show ?thesis
  proof (cases "validateDataStructure a")
    case False
    with gate show ?thesis by (simp add: process_invalid)
  next
    case True
    then obtain r where "a = Object r" by (auto simp: validate_Object)
    with gate True show ?thesis
      by (simp add: process_accepted Let_def foldl_count_event_keeps updateBuffer_def
          hybrid_keeps update_shape detectMotion_keeps after_gps_keeps)
  qed
qed

subsection \<open>The enriched sample and an accepted call\<close>

lemma enrich_fields:
  "timestamp (enrichDataFieldTested r s) = timestamp r
   \<and> lat (enrichDataFieldTested r s) = lat r
   \<and> lon (enrichDataFieldTested r s) = lon r
   \<and> velocidad (enrichDataFieldTested r s) = velocidad r
   \<and> data_x (enrichDataFieldTested r s) = data_x r
   \<and> data_y (enrichDataFieldTested r s) = data_y r
   \<and> data_z (enrichDataFieldTested r s) = data_z r
   \<and> vehicle_moving (enrichDataFieldTested r s) = isVehicleMoving s
   \<and> movement_confidence (enrichDataFieldTested r s) = movementConfidence s
   \<and> gps_available (enrichDataFieldTested r s) = gpsAvailable s
   \<and> detection_method (enrichDataFieldTested r s)
       = (if gpsAvailable s then GPS_Accel else Accel_Only)"
  by (simp add: enrichDataFieldTested_def Let_def split: option.split)


lemma enrich_estimated_speed:
  "estimated_speed (enrichDataFieldTested r s) =
     (if \<not> truthy (velocidad r) \<and> isVehicleMoving s
      then Some (estimateSpeedFromAccelerometer s) else None)"
  by (simp add: enrichDataFieldTested_def Let_def split: option.split)

text \<open>An accepted call: what the result and the new state are made of.\<close>

lemma process_Some:
  assumes "processDataPoint now a s = (Some res, s')"
  shows "\<exists>r. a = Object r
          \<and> \<not> now - lastRecordTime s < recordInterval s
          \<and> validateDataStructure a
          \<and> processed res =
              enrichDataFieldTested r
                (updateHybridMovementDetection now r (s\<lparr> lastRecordTime := now \<rparr>))
          \<and> events res =
              fst (detectEventsHybrid now (processed res)
                    (updateHybridMovementDetection now r (s\<lparr> lastRecordTime := now \<rparr>)))
          \<and> counters res = eventCounters s'
          \<and> s' = foldl count_event
                   (updateBuffer (processed res)
                      (snd (detectEventsHybrid now (processed res)
                         (updateHybridMovementDetection now r (s\<lparr> lastRecordTime := now \<rparr>)))))
                   (events res)"
proof -
  have ne: "fst (processDataPoint now a s) \<noteq> None" using assms by simp
  then have gate: "\<not> now - lastRecordTime s < recordInterval s"
    and valid: "validateDataStructure a"
    by (simp_all add: process_None_iff)
  from valid obtain r where a: "a = Object r" by (auto simp: validate_Object)
  from assms gate valid show ?thesis
    unfolding a by (auto simp: process_accepted Let_def)
qed

lemma process_state_fields:
  assumes "processDataPoint now (Object r) s = (Some res, s')"
  shows "thresholds s' = thresholds s
       \<and> accelerationHistory s' =
           accelerationHistory
             (snd (detectMotionFromAccelerometer now r
                (after_gps now r (s\<lparr> lastRecordTime := now \<rparr>))))
       \<and> baselineAcceleration s' =
           baselineAcceleration
             (snd (detectMotionFromAccelerometer now r
                (after_gps now r (s\<lparr> lastRecordTime := now \<rparr>))))
       \<and> motionHistory s' =
           motionHistory
             (snd (detectMotionFromAccelerometer now r
                (after_gps now r (s\<lparr> lastRecordTime := now \<rparr>))))
       \<and> movementConfidence s' =
           movementConfidence
             (updateHybridMovementDetection now r (s\<lparr> lastRecordTime := now \<rparr>))
       \<and> isVehicleMoving s' =
           isVehicleMoving
             (updateHybridMovementDetection now r (s\<lparr> lastRecordTime := now \<rparr>))
       \<and> gpsAvailable s' = hasGPS r"
proof -
  from process_Some [OF assms] obtain r' where
    "Object r = Object r'" and
    s': "s' = foldl count_event
               (updateBuffer (processed res)
                  (snd (detectEventsHybrid now (processed res)
                     (updateHybridMovementDetection now r' (s\<lparr> lastRecordTime := now \<rparr>)))))
               (events res)"
    by blast
  then have "r' = r" by simp
  with s' show ?thesis
    by (simp add: foldl_count_event_keeps updateBuffer_def hybrid_keeps update_shape
        detectMotion_keeps after_gps_keeps)
qed



subsection \<open>The baseline along a sequence of calls\<close>




subsection \<open>Speeding needs a reported speed\<close>

lemma hybrid_speeding_needs:
  "e \<in> set (fst (detectEventsHybrid now d s)) \<Longrightarrow> ev_type e = Speeding \<Longrightarrow>
   gps_available d \<and> truthy (velocidad d)"
  by (auto simp: hybrid_events split: if_splits
      dest: accel_fst braking_fst turn_fst speeding_fst)

lemma zero_not_nonzero:
  "data_x d = Some 0 \<or> data_y d = Some 0 \<or> data_z d = Some 0 \<Longrightarrow> \<not> accel_nonzero d"
  by (auto simp: accel_nonzero_def truthy_def)

subsection \<open>The accelerometer step as a function of the fields it reads\<close>

lemma baseline_is_mean:
  "calculateAccelerationBaseline s = mean_baseline (accelerationHistory s)"
  by (simp add: calculateAccelerationBaseline_def mean_baseline_def)

lemma variation_is_distance:
  "calculateAccelerationVariation s c = variation_from (baselineAcceleration s) c"
  by (simp add: calculateAccelerationVariation_def variation_from_def Let_def split: option.split)

lemma detectMotion_summary:
  assumes "accel_nonzero d"
  shows "detectMotionFromAccelerometer now d s =
     (let h = push_bounded 10 (current_accel now d) (accelerationHistory s);
          b = (if baselineAcceleration s = None \<and> 5 \<le> length h
               then mean_baseline h else baselineAcceleration s);
          v = variation_from b (current_accel now d);
          m = (motion_threshold (thresholds s) < v)
      in if b = None
         then (False, s\<lparr> accelerationHistory := h, baselineAcceleration := b \<rparr>)
         else (m, s\<lparr> accelerationHistory := h, baselineAcceleration := b,
                      motionHistory :=
                        push_bounded 20
                          \<lparr> moving = m, variation = v, motion_timestamp = now \<rparr>
                          (motionHistory s) \<rparr>))"
proof -
  from assms obtain dx dy dz where
    d: "data_x d = Some dx" "data_y d = Some dy" "data_z d = Some dz"
    and nz: "dx \<noteq> 0" "dy \<noteq> 0" "dz \<noteq> 0"
    by (auto simp: accel_nonzero_def truthy_def split: option.splits)
  have c: "current_accel now d =
             \<lparr> acc_x = dx, acc_y = dy, acc_z = dz,
               acc_magnitude = sqrt (dx ^ 2 + dy ^ 2 + dz ^ 2), acc_timestamp = now \<rparr>"
    by (simp add: current_accel_def d or_zero_def)
  show ?thesis
    unfolding detectMotionFromAccelerometer_def c [symmetric] d
    by (cases "baselineAcceleration s")
       (auto simp: nz Let_def baseline_is_mean variation_is_distance c [symmetric])
qed

subsection \<open>Fields that no call reads before writing\<close>

lemma hasGPSMovement_wasMoving:
  "hasGPSMovement now d (s\<lparr> wasMoving := w \<rparr>) =
     (fst (hasGPSMovement now d s), (snd (hasGPSMovement now d s))\<lparr> wasMoving := w \<rparr>)"
  by (simp add: hasGPSMovement_def Let_def split: option.split)

lemma detectMotion_wasMoving:
  "detectMotionFromAccelerometer now d (s\<lparr> wasMoving := w \<rparr>) =
     (fst (detectMotionFromAccelerometer now d s),
      (snd (detectMotionFromAccelerometer now d s))\<lparr> wasMoving := w \<rparr>)"
proof (cases "accel_nonzero d")
  case True
  define h where "h = push_bounded 10 (current_accel now d) (accelerationHistory s)"
  define b where "b = (if baselineAcceleration s = None \<and> 5 \<le> length h
                       then mean_baseline h else baselineAcceleration s)"
  define v where "v = variation_from b (current_accel now d)"
  define m where "m = (motion_threshold (thresholds s) < v)"
  define mh where "mh = push_bounded 20 \<lparr> moving = m, variation = v, motion_timestamp = now \<rparr>
                          (motionHistory s)"
  have L: "detectMotionFromAccelerometer now d (s\<lparr> wasMoving := w \<rparr>) =
             (if b = None
              then (False, s\<lparr> wasMoving := w, accelerationHistory := h,
                             baselineAcceleration := b \<rparr>)
              else (m, s\<lparr> wasMoving := w, accelerationHistory := h,
                         baselineAcceleration := b, motionHistory := mh \<rparr>))"
    unfolding detectMotion_summary [OF True] Let_def h_def b_def v_def m_def mh_def
    by (simp split del: if_split cong: if_cong)
  have R: "detectMotionFromAccelerometer now d s =
             (if b = None
              then (False, s\<lparr> accelerationHistory := h, baselineAcceleration := b \<rparr>)
              else (m, s\<lparr> accelerationHistory := h, baselineAcceleration := b,
                         motionHistory := mh \<rparr>))"
    unfolding detectMotion_summary [OF True] Let_def h_def b_def v_def m_def mh_def
    by (simp split del: if_split cong: if_cong)
  show ?thesis
    unfolding L R by (cases b) simp_all
next
  case False
  then show ?thesis by (simp add: detectMotion_zero)
qed

lemma after_gps_ignores:
  "after_gps now d (s\<lparr> gpsAvailable := g, wasMoving := w \<rparr>) = (after_gps now d s)\<lparr> wasMoving := w \<rparr>"
proof -
  have e: "s\<lparr> wasMoving := w, gpsAvailable := True \<rparr> = s\<lparr> gpsAvailable := True \<rparr>\<lparr> wasMoving := w \<rparr>"
    by simp
  show ?thesis
    by (simp add: after_gps_def) (simp only: e hasGPSMovement_wasMoving snd_conv simp_thms)
qed

lemma hasSustainedMotion_wasMoving:
  "hasSustainedMotion (s\<lparr> wasMoving := w \<rparr>) = hasSustainedMotion s"
  by (simp add: hasSustainedMotion_def)

lemma flags_ignore:
  "speedCriteria_of d (s\<lparr> gpsAvailable := g, wasMoving := w \<rparr>) = speedCriteria_of d s
   \<and> gpsMotion_of now d (s\<lparr> gpsAvailable := g, wasMoving := w \<rparr>) = gpsMotion_of now d s
   \<and> accelMotion_of now d (s\<lparr> gpsAvailable := g, wasMoving := w \<rparr>) = accelMotion_of now d s
   \<and> sustained_of now d (s\<lparr> gpsAvailable := g, wasMoving := w \<rparr>) = sustained_of now d s"
proof -
  have e: "s\<lparr> wasMoving := w, gpsAvailable := True \<rparr> = s\<lparr> gpsAvailable := True \<rparr>\<lparr> wasMoving := w \<rparr>"
    by simp
  have g: "gpsMotion_of now d (s\<lparr> gpsAvailable := g, wasMoving := w \<rparr>) = gpsMotion_of now d s"
    by (simp add: gpsMotion_of_def) (simp only: e hasGPSMovement_wasMoving fst_conv simp_thms)
  show ?thesis
    by (simp add: g speedCriteria_of_def accelMotion_of_def sustained_of_def
        after_gps_ignores detectMotion_wasMoving hasSustainedMotion_wasMoving)
qed

lemma update_ignores:
  "updateHybridMovementDetection now d (s\<lparr> gpsAvailable := g, wasMoving := w \<rparr>)
     = updateHybridMovementDetection now d s"
  by (simp add: update_shape flags_ignore after_gps_ignores detectMotion_wasMoving)

lemma process_ignores:
  assumes "validateDataStructure a"
    and "\<not> now - lastRecordTime s < recordInterval s"
    and "\<not> now - l < recordInterval s"
  shows "processDataPoint now a (s\<lparr> gpsAvailable := g, wasMoving := w, lastRecordTime := l \<rparr>)
           = processDataPoint now a s"
proof -
  from assms(1) obtain r where a: "a = Object r" by (auto simp: validate_Object)
  have e: "s\<lparr> gpsAvailable := g, wasMoving := w, lastRecordTime := now \<rparr>
           = s\<lparr> lastRecordTime := now \<rparr>\<lparr> gpsAvailable := g, wasMoving := w \<rparr>"
    by simp
  have "updateHybridMovementDetection now r
          (s\<lparr> gpsAvailable := g, wasMoving := w, lastRecordTime := now \<rparr>)
        = updateHybridMovementDetection now r (s\<lparr> lastRecordTime := now \<rparr>)"
    by (simp only: e update_ignores)
  with assms show ?thesis
    unfolding a by (simp add: process_accepted)
qed

lemma reset_as_fresh:
  "resetCounters s =
     (fresh_session s)\<lparr> gpsAvailable := gpsAvailable s, wasMoving := wasMoving s,
                         lastRecordTime := lastRecordTime s \<rparr>"
  by (cases s) (simp add: resetCounters_def fresh_session_def DataProcessor_new_def)

lemma fresh_session_fields:
  "lastRecordTime (fresh_session s) = 0 \<and> recordInterval (fresh_session s) = recordInterval s"
  by (simp add: fresh_session_def DataProcessor_new_def)

lemma process_after_reset:
  assumes "validateDataStructure a"
    and "recordInterval s \<le> now - lastRecordTime s"
    and "recordInterval s \<le> now"
  shows "processDataPoint now a (resetCounters s) = processDataPoint now a (fresh_session s)"
proof -
  have "processDataPoint now a
          ((fresh_session s)\<lparr> gpsAvailable := gpsAvailable s, wasMoving := wasMoving s,
                              lastRecordTime := lastRecordTime s \<rparr>)
        = processDataPoint now a (fresh_session s)"
    using assms by (intro process_ignores) (simp_all add: fresh_session_fields)
  then show ?thesis by (simp only: reset_as_fresh [symmetric])
qed

subsection \<open>Warm-up of the baseline\<close>




lemma enrich_accel_nonzero: "accel_nonzero (enrichDataFieldTested r s) = accel_nonzero r"
  by (simp add: accel_nonzero_def enrich_fields)

lemma counted_iff:
  "counted (fst (processDataPoint now a s)) \<longleftrightarrow>
   (\<exists>r. a = Object r \<and> validateDataStructure a
        \<and> \<not> now - lastRecordTime s < recordInterval s \<and> accel_nonzero r)"
proof (cases "fst (processDataPoint now a s)")
  case None
  then show ?thesis
    using process_None_iff [of now a s] by (auto simp: counted_def)
next
  case (Some res)
  then have p: "processDataPoint now a s = (Some res, snd (processDataPoint now a s))"
    by (metis prod.collapse)
  from process_Some [OF p] Some show ?thesis
    by (auto simp: counted_def enrich_accel_nonzero)
qed







subsection \<open>A stream at rest\<close>











section \<open>Properties of the processor\<close>

subsection \<open>Severity of emitted events\<close>




subsection \<open>The speed gate of aggressive turns\<close>

text \<open>
  Claim C2, as amended. In the calibrated variant (v2.1) an aggressive turn is emitted
  only for a sample whose averaged speed \<open>filtered_speed\<close> is defined and exceeds
  15 km/h. The field-tested variant (v2.2) has no speed gate on turns: it emits one
  exactly when the vehicle is moving, the filtered lateral reading exceeds the turn
  threshold in absolute value, and the debounce test passes.
\<close>

theorem C2_turn_speed_gate:
  "(\<forall>e \<in> set (fst (detectDrivingEventsFiltered now d' s)).
      ev_type e = Aggressive_turn \<longrightarrow> (\<exists>fs. filtered_speed d' = Some fs \<and> 15 < fs))
   \<and> ((\<exists>e \<in> set (fst (detectEventsHybrid now d s)). ev_type e = Aggressive_turn) \<longleftrightarrow>
        isVehicleMoving s
        \<and> (\<exists>f. filtered_acceleration d = Some f \<and> aggressive_turn (thresholds s) < \<bar>vec_x f\<bar>)
        \<and> debounce_ok s Aggressive_turn now (stability_time (thresholds s)))"
  using hybrid_turn_iff [of now d s] filtered_turn_needs_speed [of _ now d' s] by blast

text \<open>
  The theorem on a lateral reading of 12 at 20 km/h for the calibrated detector, which
  emits the turn (and emits nothing at 10 km/h), and on a lateral reading of 4 at
  10 km/h for the field-tested detector, which emits it.
\<close>

theorem C2_turn_speed_gate_witness:
  "map ev_type (fst (detectDrivingEventsFiltered 20000 (turn_sample_v21 12 20) moving_state))
     = [Aggressive_turn]
   \<and> (\<exists>fs. filtered_speed (turn_sample_v21 12 20) = Some fs \<and> 15 < fs)
   \<and> fst (detectDrivingEventsFiltered 20000 (turn_sample_v21 12 10) moving_state) = []
   \<and> velocidad (hybrid_sample 4 0 (Some 10)) = Some 10
   \<and> (\<exists>e \<in> set (fst (detectEventsHybrid 20000 (hybrid_sample 4 0 (Some 10)) moving_state)).
        ev_type e = Aggressive_turn)"
proof -
  have a: "map ev_type
             (fst (detectDrivingEventsFiltered 20000 (turn_sample_v21 12 20) moving_state))
           = [Aggressive_turn]"
    by (simp add: v21_defs sample_defs Let_def cong: by_value)
  then have a': "\<exists>e \<in> set (fst (detectDrivingEventsFiltered 20000 (turn_sample_v21 12 20)
                    moving_state)). ev_type e = Aggressive_turn"
    by (cases "fst (detectDrivingEventsFiltered 20000 (turn_sample_v21 12 20) moving_state)")
       auto
  have b: "fst (detectDrivingEventsFiltered 20000 (turn_sample_v21 12 10) moving_state) = []"
    by (simp add: v21_defs sample_defs Let_def cong: by_value)
  have c: "isVehicleMoving moving_state
           \<and> (\<exists>f. filtered_acceleration (hybrid_sample 4 0 (Some 10)) = Some f
                  \<and> aggressive_turn (thresholds moving_state) < \<bar>vec_x f\<bar>)
           \<and> debounce_ok moving_state Aggressive_turn 20000
                (stability_time (thresholds moving_state))"
    by (simp add: sample_defs debounce_ok_def)
  have v: "velocidad (hybrid_sample 4 0 (Some 10)) = Some 10"
    by (simp add: hybrid_sample_def)
  from C2_turn_speed_gate [of 20000 "turn_sample_v21 12 20" moving_state
      "hybrid_sample 4 0 (Some 10)"] a a' b c v
  show ?thesis by blast
qed

text \<open>
  The claim fails on the field-tested variant. After five samples at rest and without
  GPS, a sample with a filtered lateral reading of 4 produces an aggressive turn, while
  it reports no speed and its estimated speed is 15 km/h.
\<close>

theorem C2_turn_without_speed:
  "map (map (\<lambda>e. (ev_type e, ev_value e)) \<circ> events \<circ> the)
     (fst (feed DataProcessor_new (warm_up @ [(12000, accel_only 12000 5 1 9.75)])))
   = [[], [], [], [], [], [(Aggressive_turn, 4)]]
   \<and> map ((\<lambda>p. (velocidad p, estimated_speed p)) \<circ> processed \<circ> the)
       (fst (feed DataProcessor_new (warm_up @ [(12000, accel_only 12000 5 1 9.75)])))
     = [(None, None), (None, None), (None, None), (None, None), (None, None),
        (None, Some 15)]"
  by (simp add: processor_defs sample_defs Let_def sqrt_16 cong: by_value)

subsection \<open>Debouncing\<close>




subsection \<open>Movement confidence\<close>

text \<open>
  Claim C5. For every accepted sample the movement confidence is the capped sum of the
  specification: with GPS (\<open>lat\<close> and \<open>lon\<close> truthy), 40 for the speed test, 30 for
  GPS displacement and 30 for the accelerometer flag; without GPS, 70 for the
  accelerometer flag and 30 for sustained motion. It is at most 100 (and a natural
  number), the state and the enriched sample carry it, and the vehicle is taken as
  moving exactly when the confidence exceeds 50 with GPS, 40 without.
\<close>

theorem C5_confidence:
  assumes "processDataPoint now (Object d) s = (Some res, s')"
  shows "(let s1 = s\<lparr> lastRecordTime := now \<rparr>;
              c = confidence_spec (hasGPS d) (speedCriteria_of d s1) (gpsMotion_of now d s1)
                    (accelMotion_of now d s1) (sustained_of now d s1)
          in movementConfidence s' = c
             \<and> movement_confidence (processed res) = c
             \<and> c \<le> 100
             \<and> gpsAvailable s' = hasGPS d
             \<and> isVehicleMoving s' = (if hasGPS d then 50 < c else 40 < c)
             \<and> vehicle_moving (processed res) = isVehicleMoving s')"
proof -
  from process_Some [OF assms] obtain r where "Object d = Object r"
    and e: "processed res =
              enrichDataFieldTested r
                (updateHybridMovementDetection now r (s\<lparr> lastRecordTime := now \<rparr>))"
    by blast
  then have r: "r = d" by simp
  from process_state_fields [OF assms] show ?thesis
    unfolding Let_def e r
    by (simp add: enrich_fields update_shape confidence_spec_le)
qed

text \<open>
  The theorem on the first sample of a session, with a GPS fix at 100 km/h: the speed
  test alone holds, the confidence is 40 and the vehicle is not moving.
\<close>

theorem C5_confidence_witness:
  "fst (processDataPoint 2000 (gps_accel 2000 25 (- 108) 100 1 1 9.8) DataProcessor_new) \<noteq> None
   \<and> movementConfidence
       (snd (processDataPoint 2000 (gps_accel 2000 25 (- 108) 100 1 1 9.8) DataProcessor_new))
     = 40
   \<and> gpsAvailable
       (snd (processDataPoint 2000 (gps_accel 2000 25 (- 108) 100 1 1 9.8) DataProcessor_new))
   \<and> \<not> isVehicleMoving
       (snd (processDataPoint 2000 (gps_accel 2000 25 (- 108) 100 1 1 9.8) DataProcessor_new))"
proof -
  let ?d = "gps_accel_data 2000 25 (- 108) 100 1 1 9.8"
  let ?p = "processDataPoint 2000 (Object ?d) DataProcessor_new"
  have ne: "fst ?p \<noteq> None"
    by (simp add: process_None_iff validate_Object sample_defs)
  then obtain res where "fst ?p = Some res" by blast
  then have p: "?p = (Some res, snd ?p)" by (metis prod.collapse)
  have g: "hasGPS ?d" by (simp add: hasGPS_def truthy_def sample_defs)
  have c: "confidence_spec (hasGPS ?d)
             (speedCriteria_of ?d (DataProcessor_new\<lparr> lastRecordTime := 2000 \<rparr>))
             (gpsMotion_of 2000 ?d (DataProcessor_new\<lparr> lastRecordTime := 2000 \<rparr>))
             (accelMotion_of 2000 ?d (DataProcessor_new\<lparr> lastRecordTime := 2000 \<rparr>))
             (sustained_of 2000 ?d (DataProcessor_new\<lparr> lastRecordTime := 2000 \<rparr>)) = 40"
    by (simp add: confidence_spec_def hasGPS_def speedCriteria_of_def gpsMotion_of_def
        accelMotion_of_def sustained_of_def after_gps_def processor_defs sample_defs Let_def
        cong: by_value)
  from C5_confidence [OF p] ne g c show ?thesis
    by (simp add: Let_def gps_accel_def)
qed

subsection \<open>When the entry point returns null\<close>

text \<open>
  Claim C6, as amended. \<open>processDataPoint\<close> is a total function of its inputs and
  returns \<open>null\<close> exactly when the call is rate-gated or the sample is structurally
  invalid; otherwise it returns the enriched sample, the emitted events and the
  counters. Rate-gated means: the clock is less than \<open>recordInterval\<close> past
  \<open>lastRecordTime\<close>, which is the clock of the last call that passed the gate, whether
  or not that call's sample was then found valid. Structurally invalid means: not an
  object, or \<open>timestamp\<close> or \<open>participante\<close> missing or not a string.
\<close>

theorem C6_null_result:
  "(fst (processDataPoint now a s) = None \<longleftrightarrow>
      now - lastRecordTime s < recordInterval s \<or> \<not> validateDataStructure a)
   \<and> (validateDataStructure a \<longleftrightarrow>
        (\<exists>r t p. a = Object r \<and> timestamp r = String_val t \<and> participante r = String_val p))
   \<and> lastRecordTime (snd (processDataPoint now a s)) =
       (if now - lastRecordTime s < recordInterval s then lastRecordTime s else now)
   \<and> (\<forall>res. fst (processDataPoint now a s) = Some res \<longrightarrow>
        (\<exists>r. a = Object r
           \<and> processed res =
               enrichDataFieldTested r
                 (updateHybridMovementDetection now r (s\<lparr> lastRecordTime := now \<rparr>))
           \<and> events res =
               fst (detectEventsHybrid now (processed res)
                     (updateHybridMovementDetection now r (s\<lparr> lastRecordTime := now \<rparr>)))
           \<and> counters res = eventCounters (snd (processDataPoint now a s))))"
proof -
  have "\<exists>r. a = Object r
           \<and> processed res =
               enrichDataFieldTested r
                 (updateHybridMovementDetection now r (s\<lparr> lastRecordTime := now \<rparr>))
           \<and> events res =
               fst (detectEventsHybrid now (processed res)
                     (updateHybridMovementDetection now r (s\<lparr> lastRecordTime := now \<rparr>)))
           \<and> counters res = eventCounters (snd (processDataPoint now a s))"
    if "fst (processDataPoint now a s) = Some res" for res
  proof -
    from that have "processDataPoint now a s = (Some res, snd (processDataPoint now a s))"
      by (metis prod.collapse)
    from process_Some [OF this] show ?thesis by blast
  qed
  then show ?thesis
    using process_None_iff [of now a s] validate_Object [of a] process_lastRecordTime [of now a s]
    by blast
qed

text \<open>
  The theorem on a fresh processor with \<open>recordInterval\<close> of 1500 ms: a valid sample at
  2000 is processed, a second call 500 ms later returns \<open>null\<close>, and so does a call with
  an argument that is not an object.
\<close>

theorem C6_null_result_witness:
  "recordInterval DataProcessor_new = 1500
   \<and> fst (processDataPoint 2000 (accel_only 2000 1 1 9.8) DataProcessor_new) \<noteq> None
   \<and> fst (processDataPoint 2500 (accel_only 2500 1 1 9.8)
           (snd (processDataPoint 2000 (accel_only 2000 1 1 9.8) DataProcessor_new))) = None
   \<and> fst (processDataPoint 2000 Non_object DataProcessor_new) = None"
proof -
  let ?s1 = "snd (processDataPoint 2000 (accel_only 2000 1 1 9.8) DataProcessor_new)"
  have v: "validateDataStructure (accel_only t 1 1 9.8)" for t
    by (simp add: validateDataStructure_def sample_defs)
  have n: "\<not> validateDataStructure Non_object"
    by (simp add: validateDataStructure_def)
  have g: "\<not> (2000 - lastRecordTime DataProcessor_new < recordInterval DataProcessor_new)"
    by (simp add: DataProcessor_new_def)
  have r: "recordInterval ?s1 = 1500"
    by (simp add: processor_defs sample_defs Let_def cong: by_value)
  from C6_null_result [of 2000 "accel_only 2000 1 1 9.8" DataProcessor_new] v g
  have first: "fst (processDataPoint 2000 (accel_only 2000 1 1 9.8) DataProcessor_new) \<noteq> None"
    and l: "lastRecordTime ?s1 = 2000"
    by simp_all
  from C6_null_result [of 2500 "accel_only 2500 1 1 9.8" ?s1] l r
  have second: "fst (processDataPoint 2500 (accel_only 2500 1 1 9.8) ?s1) = None"
    by simp
  from C6_null_result [of 2000 Non_object DataProcessor_new] n
  have third: "fst (processDataPoint 2000 Non_object DataProcessor_new) = None"
    by simp
  from first second third show ?thesis by (simp add: DataProcessor_new_def)
qed

text \<open>
  The claim fails when the rate gate is read against the last accepted sample. A valid
  sample is accepted at 2000; a call at 4000 with an argument that is not an object
  passes the gate and returns \<open>null\<close>; a valid sample at 4500 then returns \<open>null\<close>,
  although it is valid and arrives 2500 ms after the last accepted sample.
\<close>

theorem C6_gated_after_invalid_call:
  "map (\<lambda>r. r = None)
     (fst (feed DataProcessor_new
        [(2000, accel_only 2000 1 1 9.8), (4000, Non_object),
         (4500, accel_only 4500 1 1 9.8)]))
   = [False, True, True]
   \<and> validateDataStructure (accel_only 4500 1 1 9.8)
   \<and> \<not> (4500 - 2000 < recordInterval DataProcessor_new)"
  by (simp add: processor_defs sample_defs Let_def cong: by_value)

subsection \<open>Zero readings\<close>

text \<open>
  Claim C9. A sensor value of exactly 0 is treated as absent. With \<open>lat\<close> or \<open>lon\<close>
  equal to 0 the GPS is unavailable: the state and the enriched sample say so and the
  detection method is accelerometer-only. With \<open>x\<close>, \<open>y\<close> or \<open>z\<close> equal to 0 the
  accelerometer test returns no motion and leaves the state, in particular the
  acceleration history, as it was. With a reported speed of 0 the estimated speed is
  set as if no speed were reported (the estimate when the vehicle is moving), and no
  speeding event is emitted.
\<close>

theorem C9_zero_is_absent:
  "((lat d = Some 0 \<or> lon d = Some 0) \<longrightarrow>
      \<not> hasGPS d
      \<and> \<not> gpsAvailable (updateHybridMovementDetection now d s)
      \<and> (\<forall>res s'. processDataPoint now (Object d) s = (Some res, s') \<longrightarrow>
            \<not> gps_available (processed res)
            \<and> detection_method (processed res) = Accel_Only))
   \<and> ((data_x d = Some 0 \<or> data_y d = Some 0 \<or> data_z d = Some 0) \<longrightarrow>
        detectMotionFromAccelerometer now d s = (False, s)
        \<and> \<not> accelMotion_of now d s
        \<and> accelerationHistory (updateHybridMovementDetection now d s) = accelerationHistory s)
   \<and> (velocidad d = Some 0 \<longrightarrow>
        estimated_speed (enrichDataFieldTested d s)
          = estimated_speed (enrichDataFieldTested (d\<lparr> velocidad := None \<rparr>) s)
        \<and> estimated_speed (enrichDataFieldTested d s)
          = (if isVehicleMoving s then Some (estimateSpeedFromAccelerometer s) else None)
        \<and> (\<forall>res s'. processDataPoint now (Object d) s = (Some res, s') \<longrightarrow>
              (\<forall>e \<in> set (events res). ev_type e \<noteq> Speeding)))"
proof (intro conjI impI)
  assume z: "lat d = Some 0 \<or> lon d = Some 0"
  then show g: "\<not> hasGPS d" by (auto simp: hasGPS_def truthy_def)
  then show "\<not> gpsAvailable (updateHybridMovementDetection now d s)"
    by (simp add: update_shape detectMotion_keeps after_gps_keeps)
  show "\<forall>res s'. processDataPoint now (Object d) s = (Some res, s') \<longrightarrow>
            \<not> gps_available (processed res)
            \<and> detection_method (processed res) = Accel_Only"
  proof (intro allI impI)
    fix res s'
    assume p: "processDataPoint now (Object d) s = (Some res, s')"
    from process_Some [OF p] obtain r where "Object d = Object r"
      and e: "processed res =
              enrichDataFieldTested r
                (updateHybridMovementDetection now r (s\<lparr> lastRecordTime := now \<rparr>))"
      by blast
    then have "r = d" by simp
    with e g show "\<not> gps_available (processed res)
            \<and> detection_method (processed res) = Accel_Only"
      by (simp add: enrich_fields update_shape detectMotion_keeps after_gps_keeps)
  qed
next
  assume z: "data_x d = Some 0 \<or> data_y d = Some 0 \<or> data_z d = Some 0"
  then have n: "\<not> accel_nonzero d" by (rule zero_not_nonzero)
  then show "detectMotionFromAccelerometer now d s = (False, s)"
    by (rule detectMotion_zero)
  from n show "\<not> accelMotion_of now d s"
    by (simp add: accelMotion_of_def detectMotion_zero)
  from n show "accelerationHistory (updateHybridMovementDetection now d s) = accelerationHistory s"
    by (simp add: update_shape detectMotion_history after_gps_keeps)
next
  assume v: "velocidad d = Some 0"
  then show "estimated_speed (enrichDataFieldTested d s)
          = estimated_speed (enrichDataFieldTested (d\<lparr> velocidad := None \<rparr>) s)"
    by (simp add: enrich_estimated_speed truthy_def)
  from v show "estimated_speed (enrichDataFieldTested d s)
          = (if isVehicleMoving s then Some (estimateSpeedFromAccelerometer s) else None)"
    by (simp add: enrich_estimated_speed truthy_def)
  show "\<forall>res s'. processDataPoint now (Object d) s = (Some res, s') \<longrightarrow>
              (\<forall>e \<in> set (events res). ev_type e \<noteq> Speeding)"
  proof (intro allI impI ballI)
    fix res s' e
    assume p: "processDataPoint now (Object d) s = (Some res, s')"
      and e: "e \<in> set (events res)"
    from process_Some [OF p] obtain r where "Object d = Object r"
      and pr: "processed res =
              enrichDataFieldTested r
                (updateHybridMovementDetection now r (s\<lparr> lastRecordTime := now \<rparr>))"
      and ev: "events res =
              fst (detectEventsHybrid now (processed res)
                    (updateHybridMovementDetection now r (s\<lparr> lastRecordTime := now \<rparr>)))"
      by blast
    then have "r = d" by simp
    with pr v have "\<not> truthy (velocidad (processed res))"
      by (simp add: enrich_fields truthy_def)
    with e ev show "ev_type e \<noteq> Speeding"
      by (auto dest: hybrid_speeding_needs)
  qed
qed

text \<open>
  The theorem on three samples for a fresh processor: a fix with latitude 0, an
  accelerometer reading \<open>(0, 0, 9.8)\<close>, and a fix that reports the speed 0.
\<close>

theorem C9_zero_is_absent_witness:
  "lat (gps_accel_data 2000 0 (- 108) 50 1 1 9.8) = Some 0
   \<and> \<not> gpsAvailable
        (updateHybridMovementDetection 2000 (gps_accel_data 2000 0 (- 108) 50 1 1 9.8)
           DataProcessor_new)
   \<and> data_x (accel_only_data 2000 0 0 9.8) = Some 0
   \<and> detectMotionFromAccelerometer 2000 (accel_only_data 2000 0 0 9.8) DataProcessor_new
       = (False, DataProcessor_new)
   \<and> velocidad (gps_accel_data 2000 25 (- 108) 0 1 1 9.8) = Some 0
   \<and> estimated_speed
        (enrichDataFieldTested (gps_accel_data 2000 25 (- 108) 0 1 1 9.8) moving_state)
       = Some 0
   \<and> estimated_speed
        (enrichDataFieldTested
           ((gps_accel_data 2000 25 (- 108) 0 1 1 9.8)\<lparr> velocidad := None \<rparr>) moving_state)
       = Some 0"
proof -
  have a: "lat (gps_accel_data 2000 0 (- 108) 50 1 1 9.8) = Some 0"
    by (simp add: gps_accel_data_def)
  have b: "data_x (accel_only_data 2000 0 0 9.8) = Some 0"
    by (simp add: accel_only_data_def)
  have c: "velocidad (gps_accel_data 2000 25 (- 108) 0 1 1 9.8) = Some 0"
    by (simp add: gps_accel_data_def)
  have m: "isVehicleMoving moving_state"
    by (simp add: moving_state_def)
  have e: "estimateSpeedFromAccelerometer moving_state = 0"
    by (simp add: estimateSpeedFromAccelerometer_def sample_defs)
  from C9_zero_is_absent [of "gps_accel_data 2000 0 (- 108) 50 1 1 9.8" 2000 DataProcessor_new] a
  have g: "\<not> gpsAvailable
        (updateHybridMovementDetection 2000 (gps_accel_data 2000 0 (- 108) 50 1 1 9.8)
           DataProcessor_new)"
    by blast
  from C9_zero_is_absent [of "accel_only_data 2000 0 0 9.8" 2000 DataProcessor_new] b
  have d: "detectMotionFromAccelerometer 2000 (accel_only_data 2000 0 0 9.8) DataProcessor_new
       = (False, DataProcessor_new)"
    by blast
  from C9_zero_is_absent [of "gps_accel_data 2000 25 (- 108) 0 1 1 9.8" 2000 moving_state] c
  have s: "estimated_speed
        (enrichDataFieldTested (gps_accel_data 2000 25 (- 108) 0 1 1 9.8) moving_state)
       = estimated_speed
        (enrichDataFieldTested
           ((gps_accel_data 2000 25 (- 108) 0 1 1 9.8)\<lparr> velocidad := None \<rparr>) moving_state)
     \<and> estimated_speed
        (enrichDataFieldTested (gps_accel_data 2000 25 (- 108) 0 1 1 9.8) moving_state)
       = (if isVehicleMoving moving_state
          then Some (estimateSpeedFromAccelerometer moving_state) else None)"
    by blast
  from s have q: "estimated_speed
        (enrichDataFieldTested (gps_accel_data 2000 25 (- 108) 0 1 1 9.8) moving_state)
       = estimated_speed
        (enrichDataFieldTested
           ((gps_accel_data 2000 25 (- 108) 0 1 1 9.8)\<lparr> velocidad := None \<rparr>) moving_state)"
    by blast
  from s have "estimated_speed
        (enrichDataFieldTested (gps_accel_data 2000 25 (- 108) 0 1 1 9.8) moving_state)
       = (if isVehicleMoving moving_state
          then Some (estimateSpeedFromAccelerometer moving_state) else None)"
    by blast
  with m e have s1: "estimated_speed
        (enrichDataFieldTested (gps_accel_data 2000 25 (- 108) 0 1 1 9.8) moving_state)
       = Some 0"
    by simp
  from q [symmetric] s1 have s2: "estimated_speed
        (enrichDataFieldTested
           ((gps_accel_data 2000 25 (- 108) 0 1 1 9.8)\<lparr> velocidad := None \<rparr>) moving_state)
       = Some 0"
    by (rule trans)
  from a b c g d s1 s2 show ?thesis by blast
qed

subsection \<open>The baseline is fixed once established\<close>



subsection \<open>Reset\<close>

text \<open>
  Claim C8, as amended. \<open>resetCounters\<close> is idempotent. It clears the counters, the
  sample buffer, the acceleration and motion histories, the baseline, the last GPS
  point, the last-event-time map, the moving flag and the confidence; it keeps the
  thresholds and the time of the rate gate, \<open>lastRecordTime\<close>. A valid sample that
  passes the rate gate after a reset, at a clock reading that a fresh processor would
  accept too, is processed exactly as by a fresh processor with the same configuration:
  same result and same state, hence the same behaviour on all later calls.
\<close>

theorem C8_reset:
  "resetCounters (resetCounters s) = resetCounters s
   \<and> eventCounters (resetCounters s) = (\<lambda>_. 0)
   \<and> dataBuffer (resetCounters s) = []
   \<and> accelerationHistory (resetCounters s) = []
   \<and> motionHistory (resetCounters s) = []
   \<and> baselineAcceleration (resetCounters s) = None
   \<and> lastGPSPoint (resetCounters s) = None
   \<and> lastEventTime (resetCounters s) = (\<lambda>_. None)
   \<and> \<not> isVehicleMoving (resetCounters s)
   \<and> movementConfidence (resetCounters s) = 0
   \<and> thresholds (resetCounters s) = thresholds s
   \<and> lastRecordTime (resetCounters s) = lastRecordTime s
   \<and> (validateDataStructure a \<longrightarrow> recordInterval s \<le> now - lastRecordTime s \<longrightarrow>
        recordInterval s \<le> now \<longrightarrow>
        processDataPoint now a (resetCounters s) = processDataPoint now a (fresh_session s)
        \<and> feed (resetCounters s) ((now, a) # ins) = feed (fresh_session s) ((now, a) # ins))"
proof -
  have fields: "resetCounters (resetCounters s) = resetCounters s
   \<and> eventCounters (resetCounters s) = (\<lambda>_. 0)
   \<and> dataBuffer (resetCounters s) = []
   \<and> accelerationHistory (resetCounters s) = []
   \<and> motionHistory (resetCounters s) = []
   \<and> baselineAcceleration (resetCounters s) = None
   \<and> lastGPSPoint (resetCounters s) = None
   \<and> lastEventTime (resetCounters s) = (\<lambda>_. None)
   \<and> \<not> isVehicleMoving (resetCounters s)
   \<and> movementConfidence (resetCounters s) = 0
   \<and> thresholds (resetCounters s) = thresholds s
   \<and> lastRecordTime (resetCounters s) = lastRecordTime s"
    by (simp add: resetCounters_def)
  have after: "processDataPoint now a (resetCounters s) = processDataPoint now a (fresh_session s)
        \<and> feed (resetCounters s) ((now, a) # ins) = feed (fresh_session s) ((now, a) # ins)"
    if "validateDataStructure a" "recordInterval s \<le> now - lastRecordTime s"
      "recordInterval s \<le> now"
    using process_after_reset [OF that] by simp
  from fields after show ?thesis by blast
qed

text \<open>
  The theorem on the state left by one accepted sample at 2000: after a reset, a sample
  at 4000 gives the result and the state that a fresh processor gives, and the baseline
  is undefined.
\<close>

theorem C8_reset_witness:
  "fresh_session (snd (processDataPoint 2000 (accel_only 2000 1 1 9.8) DataProcessor_new))
     = DataProcessor_new
   \<and> validateDataStructure (accel_only 4000 5 1 9.8)
   \<and> processDataPoint 4000 (accel_only 4000 5 1 9.8)
        (resetCounters (snd (processDataPoint 2000 (accel_only 2000 1 1 9.8) DataProcessor_new)))
     = processDataPoint 4000 (accel_only 4000 5 1 9.8) DataProcessor_new
   \<and> baselineAcceleration
        (resetCounters (snd (processDataPoint 2000 (accel_only 2000 1 1 9.8) DataProcessor_new)))
     = None"
proof -
  let ?s = "snd (processDataPoint 2000 (accel_only 2000 1 1 9.8) DataProcessor_new)"
  have f: "fresh_session ?s = DataProcessor_new"
    by (simp add: fresh_session_def processor_defs sample_defs Let_def cong: by_value)
  have v: "validateDataStructure (accel_only 4000 5 1 9.8)"
    by (simp add: validateDataStructure_def sample_defs)
  have l: "lastRecordTime ?s = 2000" "recordInterval ?s = 1500"
    by (simp_all add: processor_defs sample_defs Let_def cong: by_value)
  from C8_reset [of ?s "accel_only 4000 5 1 9.8" 4000 "[]"] v l
  have "processDataPoint 4000 (accel_only 4000 5 1 9.8) (resetCounters ?s)
          = processDataPoint 4000 (accel_only 4000 5 1 9.8) (fresh_session ?s)
        \<and> baselineAcceleration (resetCounters ?s) = None"
    by simp
  with f v show ?thesis by simp
qed

text \<open>
  The claim fails for the rate gate, which a reset does not clear. After a sample at
  2000 and a reset, a valid sample at 2500 returns \<open>null\<close>; a fresh processor accepts it.
\<close>

theorem C8_gated_after_reset:
  "fst (processDataPoint 2500 (accel_only 2500 1 1 9.8)
         (resetCounters (snd (processDataPoint 2000 (accel_only 2000 1 1 9.8) DataProcessor_new))))
     = None
   \<and> fst (processDataPoint 2500 (accel_only 2500 1 1 9.8) DataProcessor_new) \<noteq> None"
  by (simp add: processor_defs sample_defs Let_def cong: by_value)

subsection \<open>No events unless moving\<close>




text \<open>
  Thresholds that are not negative do not suffice without the hypothesis on the
  reading. With \<open>motion_threshold\<close> and the harsh-braking threshold set to 0, five
  identical samples whose \<open>y\<close> is the double nearest to 0.11 give a baseline whose
  \<open>y\<close> is the next double: the fifth sample has a variation of \<open>2 ^ (- 56)\<close>, the
  vehicle is taken as moving, and a harsh braking of that value is emitted, extreme
  since the threshold it is divided by is 0.
\<close>

lemma stationary_stream_with_rounded_mean:
  "map (map (\<lambda>e. (ev_type e, ev_value e, ev_severity e)) \<circ> events \<circ> the)
     (fst (feed zero_thresholds drifting_stream))
   = [[], [], [], [], [(Harsh_braking, 1 / 2 ^ 56, Extreme)]]
   \<and> list_all (stationary_call 1 (7926335344172073 / 2 ^ 56) 9.75) drifting_stream
   \<and> motion_threshold (thresholds zero_thresholds) = 0
   \<and> harsh_braking (thresholds zero_thresholds) = 0
   \<and> accelerationHistory zero_thresholds = []
   \<and> baselineAcceleration zero_thresholds = None"
  by (simp add: processor_defs sample_defs stationary_call_def fl_drift sqrt_drift Let_def
      cong: by_value)

subsection \<open>Warm-up\<close>




end
